theory Spec2Isabelle
  imports Complex_Main
begin

section \<open>Python values\<close>

text \<open>
  A Python \<open>str\<close> is a sequence of code points: \<open>len\<close> and slicing count code
  points, so a string is a list of naturals, one per code point. \<open>py\<close> reads an ASCII
  literal of the source as such a list.
\<close>

type_synonym pystr = "nat list"

abbreviation py :: "string \<Rightarrow> pystr" where
  "py s \<equiv> map of_char s"

text \<open>
  The values behind \<open>Any\<close>: what a decoded JSON body holds, and what the service hands
  to its collaborators. A \<open>dict\<close> keeps insertion order, so it is an association list.
  Floats are only carried around, never computed with.
\<close>

datatype pyval =
    PNone
  | PBool bool
  | PInt int
  | PFloat real
  | PStr pystr
  | PList "pyval list"
  | PDict "(pystr \<times> pyval) list"

type_synonym pydict = "(pystr \<times> pyval) list"

type_synonym vector = "real list"

definition vector_value :: "vector \<Rightarrow> pyval" where
  "vector_value v = PList (map PFloat v)"

text \<open>\<open>d.get(k)\<close>: the value stored under a key, if any.\<close>

fun dict_get :: "pydict \<Rightarrow> pystr \<Rightarrow> pyval option" where
  "dict_get [] k = None"
| "dict_get ((k', v) # d) k = (if k' = k then Some v else dict_get d k)"

text \<open>
  \<open>d[k] = v\<close>: an existing key keeps its position and takes the new value, a new key
  goes to the end.
\<close>

fun dict_setitem :: "pystr \<Rightarrow> pyval \<Rightarrow> pydict \<Rightarrow> pydict" where
  "dict_setitem k v [] = [(k, v)]"
| "dict_setitem k v ((k', v') # d) =
     (if k' = k then (k, v) # d else (k', v') # dict_setitem k v d)"

section \<open>Exceptions, configuration and collaborators\<close>

text \<open>
  What a request handler can raise: the handler's own \<open>HTTPException\<close>, the
  framework's rejection of a body that does not validate, and an \<open>Exception\<close> raised
  inside a collaborator (the embedding model or the vector-store SDK), carried with its
  description.
\<close>

datatype exn =
    HTTPException int pystr
  | RequestValidationError pystr
  | CollaboratorError pystr

text \<open>config.py: the module-level constants, as read from the environment at import.\<close>

record config =
  ENDEE_BASE_URL :: pystr
  ENDEE_AUTH_TOKEN :: "pystr option"
  INDEX_NAME :: pystr
  EMBEDDING_MODEL :: pystr
  EMBEDDING_DIM :: int
  SPACE_TYPE :: pystr

text \<open>
  The SDK's client object: the token it was built with (if any) and its base URL.
  The model object and the index object are references to objects of the collaborators.
\<close>

record client =
  client_token :: "pystr option"
  client_base_url :: pystr

type_synonym handle = nat

datatype Precision = INT8 | OtherPrecision pystr

text \<open>One entry per call that reaches a collaborator, with its arguments.\<close>

datatype call =
    Load_Model pystr
  | Encode_One handle pystr
  | Encode_Batch handle "pystr list"
  | Get_Index client pystr
  | Create_Index client pystr int pystr Precision
  | Index_Upsert handle "pyval list"
  | Index_Query handle pydict

text \<open>
  The collaborators are parameters: each takes its arguments and the state of the
  outside world \<open>'s\<close>, and returns a value or raises, with the new outside state.
  \<open>encode_one\<close> and \<open>encode_batch\<close> are \<open>model.encode\<close> on a text and on a list of
  texts, followed by \<open>tolist\<close>.
\<close>

record 's collab =
  load_model :: "pystr \<Rightarrow> 's \<Rightarrow> (exn + handle) \<times> 's"
  encode_one :: "handle \<Rightarrow> pystr \<Rightarrow> 's \<Rightarrow> (exn + vector) \<times> 's"
  encode_batch :: "handle \<Rightarrow> pystr list \<Rightarrow> 's \<Rightarrow> (exn + vector list) \<times> 's"
  get_index :: "client \<Rightarrow> pystr \<Rightarrow> 's \<Rightarrow> (exn + handle) \<times> 's"
  create_index :: "client \<Rightarrow> pystr \<Rightarrow> int \<Rightarrow> pystr \<Rightarrow> Precision \<Rightarrow> 's \<Rightarrow> (exn + unit) \<times> 's"
  index_upsert :: "handle \<Rightarrow> pyval list \<Rightarrow> 's \<Rightarrow> (exn + unit) \<times> 's"
  index_query :: "handle \<Rightarrow> pydict \<Rightarrow> 's \<Rightarrow> (exn + pyval) \<times> 's"

text \<open>
  The dict objects of the process live in a store: \<open>cells\<close> gives the content of the
  object at an address, and the addresses below \<open>next_free\<close> are the allocated ones.
\<close>

record pyheap =
  cells :: "nat \<Rightarrow> pydict"
  next_free :: nat

text \<open>\<open>dict(d)\<close>: a new dict object with the items of \<open>d\<close>.\<close>

definition dict_new :: "pydict \<Rightarrow> pyheap \<Rightarrow> nat \<times> pyheap" where
  "dict_new d h =
     (next_free h, h\<lparr>cells := (cells h)(next_free h := d), next_free := Suc (next_free h)\<rparr>)"

text \<open>\<open>obj[k] = v\<close> on the dict object at an address.\<close>

definition heap_setitem :: "nat \<Rightarrow> pystr \<Rightarrow> pyval \<Rightarrow> pyheap \<Rightarrow> pyheap" where
  "heap_setitem a k v h = h\<lparr>cells := (cells h)(a := dict_setitem k v (cells h a))\<rparr>"

text \<open>
  The state a handler runs in: the outside world, the calls made so far, the module
  global \<open>_model\<close> of embeddings.py, and the store of dict objects.
\<close>

record 's world =
  ext :: 's
  calls :: "call list"
  model_global :: "handle option"
  heap :: pyheap

text \<open>A call of a collaborator: it is recorded, and the outside state moves on.\<close>

definition invoke :: "call \<Rightarrow> ('s \<Rightarrow> (exn + 'a) \<times> 's) \<Rightarrow> 's world \<Rightarrow> (exn + 'a) \<times> 's world" where
  "invoke c f w = (case f (ext w) of (r, s') \<Rightarrow> (r, w\<lparr>ext := s', calls := calls w @ [c]\<rparr>))"

section \<open>embeddings.py\<close>

text \<open>
  \<^verbatim>\<open>
  def _get_model():
      global _model
      if _model is None:
          _model = SentenceTransformer(EMBEDDING_MODEL)
      return _model
  \<close>
\<close>

definition get_model :: "'s collab \<Rightarrow> config \<Rightarrow> 's world \<Rightarrow> (exn + handle) \<times> 's world" where
  "get_model env cfg w =
     (case model_global w of
        Some m \<Rightarrow> (Inr m, w)
      | None \<Rightarrow>
          (case invoke (Load_Model (EMBEDDING_MODEL cfg)) (load_model env (EMBEDDING_MODEL cfg)) w of
             (Inl e, w1) \<Rightarrow> (Inl e, w1)
           | (Inr m, w1) \<Rightarrow> (Inr m, w1\<lparr>model_global := Some m\<rparr>)))"

definition embed_text :: "'s collab \<Rightarrow> config \<Rightarrow> pystr \<Rightarrow> 's world \<Rightarrow> (exn + vector) \<times> 's world" where
  "embed_text env cfg t w =
     (case get_model env cfg w of
        (Inl e, w1) \<Rightarrow> (Inl e, w1)
      | (Inr model, w1) \<Rightarrow> invoke (Encode_One model t) (encode_one env model t) w1)"

definition embed_texts :: "'s collab \<Rightarrow> config \<Rightarrow> pystr list \<Rightarrow> 's world \<Rightarrow> (exn + vector list) \<times> 's world" where
  "embed_texts env cfg texts w =
     (case get_model env cfg w of
        (Inl e, w1) \<Rightarrow> (Inl e, w1)
      | (Inr model, w1) \<Rightarrow> invoke (Encode_Batch model texts) (encode_batch env model texts) w1)"

section \<open>endee\_client.py\<close>

text \<open>
  \<^verbatim>\<open>
  client = Endee(token=ENDEE_AUTH_TOKEN) if ENDEE_AUTH_TOKEN else Endee()
  client.set_base_url(ENDEE_BASE_URL)
  \<close>
  Building the client object configures it and calls nothing outside.
\<close>

definition get_client :: "config \<Rightarrow> client" where
  "get_client cfg =
     \<lparr>client_token =
        (case ENDEE_AUTH_TOKEN cfg of
           None \<Rightarrow> None
         | Some t \<Rightarrow> if t = [] then None else Some t),
      client_base_url = ENDEE_BASE_URL cfg\<rparr>"


definition upsert_documents :: "'s collab \<Rightarrow> config \<Rightarrow> pyval list \<Rightarrow> 's world \<Rightarrow> (exn + unit) \<times> 's world" where
  "upsert_documents env cfg vectors_with_metadata w =
     (let client = get_client cfg in
      case invoke (Get_Index client (INDEX_NAME cfg)) (get_index env client (INDEX_NAME cfg)) w of
        (Inl e, w1) \<Rightarrow> (Inl e, w1)
      | (Inr index, w1) \<Rightarrow>
          invoke (Index_Upsert index vectors_with_metadata)
            (index_upsert env index vectors_with_metadata) w1)"

text \<open>
  \<^verbatim>\<open>return [{k: {"$eq": v}} for k, v in filters.items()]\<close>
\<close>

definition normalize_filter :: "pydict \<Rightarrow> pyval list" where
  "normalize_filter filters = map (\<lambda>(k, v). PDict [(k, PDict [(py ''$eq'', v)])]) filters"

text \<open>
  \<^verbatim>\<open>
  kwargs = {"vector": vector, "top_k": top_k}
  if filters:
      kwargs["filter"] = _normalize_filter(filters)
  return index.query(**kwargs)
  \<close>
  \<open>filters\<close> is falsy when it is \<open>None\<close> and when it is the empty dict.
\<close>

definition query_kwargs :: "vector \<Rightarrow> int \<Rightarrow> pydict option \<Rightarrow> pydict" where
  "query_kwargs vector top_k filters =
     (let kwargs = [(py ''vector'', vector_value vector), (py ''top_k'', PInt top_k)] in
      case filters of
        None \<Rightarrow> kwargs
      | Some f \<Rightarrow>
          if f = [] then kwargs
          else dict_setitem (py ''filter'') (PList (normalize_filter f)) kwargs)"

definition query_similar :: "'s collab \<Rightarrow> config \<Rightarrow> vector \<Rightarrow> int \<Rightarrow> pydict option \<Rightarrow> 's world \<Rightarrow> (exn + pyval) \<times> 's world" where
  "query_similar env cfg vector top_k filters w =
     (let client = get_client cfg in
      case invoke (Get_Index client (INDEX_NAME cfg)) (get_index env client (INDEX_NAME cfg)) w of
        (Inl e, w1) \<Rightarrow> (Inl e, w1)
      | (Inr index, w1) \<Rightarrow>
          (let kwargs = query_kwargs vector top_k filters in
           invoke (Index_Query index kwargs) (index_query env index kwargs) w1))"

section \<open>main.py: request models\<close>

text \<open>
  \<open>DocumentInput\<close>: \<open>meta\<close> is \<open>None\<close> or a reference to a dict object.
\<close>

record DocumentInput =
  doc_id :: pystr
  doc_text :: pystr
  doc_meta :: "nat option"

record IngestRequest =
  documents :: "DocumentInput list"

record QueryRequest =
  query_text :: pystr
  top_k :: int
  filters :: "pydict option"

text \<open>
  The body of \<open>POST /query\<close> as it arrives: \<open>top_k\<close> and \<open>filters\<close> may be left out.
  The framework builds the \<open>QueryRequest\<close> from it before the handler runs, by the
  declaration \<^verbatim>\<open>top_k: int = Field(default=5, ge=1, le=50)\<close>, and answers with a
  validation error, without calling the handler, when a constraint fails.
\<close>

record QueryBody =
  body_query_text :: pystr
  body_top_k :: "int option"
  body_filters :: "pydict option"

definition validate_QueryRequest :: "QueryBody \<Rightarrow> exn + QueryRequest" where
  "validate_QueryRequest body =
     (case body_top_k body of
        None \<Rightarrow>
          Inr \<lparr>query_text = body_query_text body, top_k = 5, filters = body_filters body\<rparr>
      | Some k \<Rightarrow>
          if 1 \<le> k \<and> k \<le> 50
          then Inr \<lparr>query_text = body_query_text body, top_k = k, filters = body_filters body\<rparr>
          else Inl (RequestValidationError (py ''top_k'')))"

section \<open>main.py: ingest\<close>

text \<open>
  \<^verbatim>\<open>snippet = doc.text[:200] + "..." if len(doc.text) > 200 else doc.text\<close>
\<close>

definition snippet_of :: "pystr \<Rightarrow> pystr" where
  "snippet_of t = (if length t > 200 then take 200 t @ py ''...'' else t)"

text \<open>
  \<open>doc.meta or {}\<close>: the items of the document's dict, or none when \<open>meta\<close> is
  \<open>None\<close> or an empty dict.
\<close>

definition meta_or_empty :: "DocumentInput \<Rightarrow> pyheap \<Rightarrow> pydict" where
  "meta_or_empty doc h =
     (case doc_meta doc of
        None \<Rightarrow> []
      | Some a \<Rightarrow> if cells h a = [] then [] else cells h a)"

text \<open>
  An element of \<open>vectors_with_metadata\<close>: the dict
  \<^verbatim>\<open>{"id": doc.id, "vector": vector, "meta": meta}\<close>, whose \<open>meta\<close> is a reference to the
  new dict object.
\<close>

record upsert_item =
  item_id :: pystr
  item_vector :: vector
  item_meta :: nat

text \<open>The item as a value, with the content its \<open>meta\<close> object has in the store.\<close>

definition item_value :: "pyheap \<Rightarrow> upsert_item \<Rightarrow> pyval" where
  "item_value h it =
     PDict [(py ''id'', PStr (item_id it)),
            (py ''vector'', vector_value (item_vector it)),
            (py ''meta'', PDict (cells h (item_meta it)))]"

text \<open>
  \<^verbatim>\<open>
  for doc, vector in zip(request.documents, vectors):
      meta = dict(doc.meta or {})
      snippet = ...
      meta["snippet"] = snippet
      vectors_with_metadata.append({"id": doc.id, "vector": vector, "meta": meta})
  \<close>
\<close>

fun ingest_loop :: "(DocumentInput \<times> vector) list \<Rightarrow> upsert_item list \<Rightarrow> pyheap \<Rightarrow> upsert_item list \<times> pyheap" where
  "ingest_loop [] vectors_with_metadata h = (vectors_with_metadata, h)"
| "ingest_loop ((doc, vector) # rest) vectors_with_metadata h =
     (case dict_new (meta_or_empty doc h) h of
        (meta, h1) \<Rightarrow>
          (let snippet = snippet_of (doc_text doc);
               h2 = heap_setitem meta (py ''snippet'') (PStr snippet) h1
           in ingest_loop rest
                (vectors_with_metadata @ [\<lparr>item_id = doc_id doc, item_vector = vector, item_meta = meta\<rparr>])
                h2))"

definition ingest :: "'s collab \<Rightarrow> config \<Rightarrow> IngestRequest \<Rightarrow> 's world \<Rightarrow> (exn + pyval) \<times> 's world" where
  "ingest env cfg request w =
     (if documents request = []
      then (Inl (HTTPException 400 (py ''No documents provided'')), w)
      else
        (let texts = map doc_text (documents request) in
         case embed_texts env cfg texts w of
           (Inl e, w1) \<Rightarrow> (Inl e, w1)
         | (Inr vectors, w1) \<Rightarrow>
             (case ingest_loop (zip (documents request) vectors) [] (heap w1) of
                (vectors_with_metadata, h2) \<Rightarrow>
                  (case upsert_documents env cfg (map (item_value h2) vectors_with_metadata)
                          (w1\<lparr>heap := h2\<rparr>) of
                     (Inl e, w2) \<Rightarrow> (Inl e, w2)
                   | (Inr u, w2) \<Rightarrow>
                       (Inr (PDict [(py ''status'', PStr (py ''ok'')),
                                    (py ''ingested'', PInt (int (length (documents request))))]),
                        w2)))))"

section \<open>main.py: query\<close>

definition query :: "'s collab \<Rightarrow> config \<Rightarrow> QueryRequest \<Rightarrow> 's world \<Rightarrow> (exn + pyval) \<times> 's world" where
  "query env cfg request w =
     (case embed_text env cfg (query_text request) w of
        (Inl e, w1) \<Rightarrow> (Inl e, w1)
      | (Inr query_vector, w1) \<Rightarrow>
          (case query_similar env cfg query_vector (top_k request) (filters request) w1 of
             (Inl e, w2) \<Rightarrow> (Inl e, w2)
           | (Inr results, w2) \<Rightarrow> (Inr (PDict [(py ''results'', results)]), w2)))"

text \<open>\<open>POST /query\<close>: the body is validated, then the handler runs.\<close>

definition post_query :: "'s collab \<Rightarrow> config \<Rightarrow> QueryBody \<Rightarrow> 's world \<Rightarrow> (exn + pyval) \<times> 's world" where
  "post_query env cfg body w =
     (case validate_QueryRequest body of
        Inl e \<Rightarrow> (Inl e, w)
      | Inr request \<Rightarrow> query env cfg request w)"

section \<open>scripts/ingest\_docs.py\<close>

text \<open>
  An exception of the script, by what the \<open>except\<close> clauses of \<open>main\<close> tell apart:
  a \<open>requests\<close> \<open>ConnectionError\<close>, another \<open>RequestException\<close>, or an exception
  that is neither. It carries \<open>str(e)\<close> and, when \<open>e.response\<close> is not \<open>None\<close>, the
  text of that response.
\<close>

datatype exn_class = ConnectionError | RequestException | OtherException

record py_exception =
  exc_class :: exn_class
  exc_str :: pystr
  exc_response_text :: "pystr option"

text \<open>
  The response of \<open>requests.post\<close>: its status code and text, the message of the
  \<open>HTTPError\<close> that \<open>raise_for_status\<close> raises for it, and what \<open>resp.json()\<close> gives.
\<close>

record http_response =
  status_code :: int
  resp_text :: pystr
  http_error_str :: pystr
  resp_json :: "py_exception + pyval"

text \<open>
  An entry of the docs directory, with the attributes the loop reads:
  \<open>path.name\<close>, \<open>path.stem\<close>, \<open>path.suffix\<close>, \<open>path.is_file()\<close> and the text
  \<open>path.read_text\<close> returns.
\<close>

record path_entry =
  path_name :: pystr
  path_stem :: pystr
  path_suffix :: pystr
  path_is_file :: bool
  path_read_text :: pystr

text \<open>
  What the script runs against: the docs directory (\<open>None\<close> when it does not exist,
  else its entries as \<open>sorted(DOCS_DIR.iterdir())\<close> lists them) and its printed path,
  the builtins \<open>str.lower\<close>, \<open>str.title\<close> and \<open>str\<close>, and the outcome of
  \<open>requests.post(url, json=payload, timeout=t)\<close>.
\<close>

record script_env =
  docs_dir :: "path_entry list option"
  docs_dir_str :: pystr
  str_lower :: "pystr \<Rightarrow> pystr"
  str_title :: "pystr \<Rightarrow> pystr"
  str_of :: "pyval \<Rightarrow> pystr"
  requests_post :: "pystr \<Rightarrow> pyval \<Rightarrow> int \<Rightarrow> py_exception + http_response"

text \<open>What a run of the script leaves: the lines printed and the posts made.\<close>

record script_io =
  stdout :: "pystr list"
  posts :: "(pystr \<times> pyval \<times> int) list"

text \<open>\<open>s.replace(a, b)\<close> for one-character \<open>a\<close> and \<open>b\<close>.\<close>

definition replace_char :: "nat \<Rightarrow> nat \<Rightarrow> pystr \<Rightarrow> pystr" where
  "replace_char a b s = map (\<lambda>c. if c = a then b else c) s"

text \<open>An element of \<open>documents\<close>: the dict with the keys \<open>id\<close>, \<open>text\<close> and \<open>meta\<close>.\<close>

record loaded_doc =
  ld_id :: pystr
  ld_text :: pystr
  ld_meta :: pydict

text \<open>
  \<^verbatim>\<open>
  for path in sorted(DOCS_DIR.iterdir()):
      if path.is_file() and path.suffix.lower() in (".md", ".txt", ".rst"):
          text = path.read_text(encoding="utf-8", errors="replace")
          doc_id = path.stem
          title = path.stem.replace("-", " ").replace("_", " ").title()
          snippet = (text[:200] + "...") if len(text) > 200 else text
          documents.append({"id": doc_id, "text": text,
              "meta": {"title": title, "source": path.name, "snippet": snippet}})
  \<close>
\<close>

fun load_loop :: "script_env \<Rightarrow> path_entry list \<Rightarrow> loaded_doc list \<Rightarrow> loaded_doc list" where
  "load_loop env [] acc = acc"
| "load_loop env (path # rest) acc =
     (if path_is_file path
         \<and> str_lower env (path_suffix path) \<in> set [py ''.md'', py ''.txt'', py ''.rst'']
      then
        (let t = path_read_text path;
             doc_id = path_stem path;
             title = str_title env (replace_char 95 32 (replace_char 45 32 (path_stem path)));
             snippet = (if length t > 200 then take 200 t @ py ''...'' else t)
         in load_loop env rest
              (acc @
                 [\<lparr>ld_id = doc_id, ld_text = t,
                   ld_meta = [(py ''title'', PStr title), (py ''source'', PStr (path_name path)),
                              (py ''snippet'', PStr snippet)]\<rparr>]))
      else load_loop env rest acc)"

definition load_documents :: "script_env \<Rightarrow> loaded_doc list \<times> pystr list" where
  "load_documents env =
     (case docs_dir env of
        None \<Rightarrow> ([], [py ''Docs directory not found: '' @ docs_dir_str env])
      | Some entries \<Rightarrow> (load_loop env entries [], []))"

text \<open>\<open>resp.raise_for_status()\<close>: an \<open>HTTPError\<close> for a status from 400 to 599.\<close>

definition raise_for_status :: "http_response \<Rightarrow> py_exception option" where
  "raise_for_status resp =
     (if 400 \<le> status_code resp \<and> status_code resp < 600
      then Some \<lparr>exc_class = RequestException, exc_str = http_error_str resp,
                 exc_response_text = Some (resp_text resp)\<rparr>
      else None)"

text \<open>
  \<open>data.get('ingested', len(docs))\<close>: only a dict has \<open>get\<close>; on any other decoded
  value the attribute lookup raises \<open>AttributeError\<close>.
\<close>

definition data_get_ingested :: "pyval \<Rightarrow> nat \<Rightarrow> py_exception + pyval" where
  "data_get_ingested data n =
     (case data of
        PDict d \<Rightarrow> Inr (case dict_get d (py ''ingested'') of Some v \<Rightarrow> v | None \<Rightarrow> PInt (int n))
      | _ \<Rightarrow> Inl \<lparr>exc_class = OtherException, exc_str = py ''AttributeError'',
                   exc_response_text = None\<rparr>)"

definition connection_message :: pystr where
  "connection_message = py ''Error: Could not connect to the API. Is the backend running on port 8000?''"

text \<open>
  The \<open>except\<close> clauses of \<open>main\<close>, in their order; an exception that is no
  \<open>RequestException\<close> is not caught.
\<close>

definition handle_exception :: "py_exception \<Rightarrow> script_io \<Rightarrow> (py_exception + int) \<times> script_io" where
  "handle_exception e io =
     (case exc_class e of
        ConnectionError \<Rightarrow> (Inr 1, io\<lparr>stdout := stdout io @ [connection_message]\<rparr>)
      | RequestException \<Rightarrow>
          (Inr 1, io\<lparr>stdout := stdout io @ [py ''Error: '' @ exc_str e]
                        @ (case exc_response_text e of None \<Rightarrow> [] | Some t \<Rightarrow> [t])\<rparr>)
      | OtherException \<Rightarrow> (Inl e, io))"

definition payload_of :: "loaded_doc list \<Rightarrow> pyval" where
  "payload_of docs =
     PDict [(py ''documents'',
             PList (map (\<lambda>d. PDict [(py ''id'', PStr (ld_id d)), (py ''text'', PStr (ld_text d)),
                                     (py ''meta'', PDict (ld_meta d))]) docs))]"

definition ingest_url :: pystr where
  "ingest_url = py ''http://localhost:8000'' @ py ''/ingest''"

definition main :: "script_env \<Rightarrow> (py_exception + int) \<times> script_io" where
  "main env =
     (case load_documents env of
        (docs, out) \<Rightarrow>
          if docs = []
          then (Inr 1, \<lparr>stdout = out @ [py ''No documents found to ingest.''], posts = []\<rparr>)
          else
            (let payload = payload_of docs;
                 io = \<lparr>stdout = out, posts = [(ingest_url, payload, 60)]\<rparr>
             in case requests_post env ingest_url payload 60 of
                  Inl e \<Rightarrow> handle_exception e io
                | Inr resp \<Rightarrow>
                    (case raise_for_status resp of
                       Some e \<Rightarrow> handle_exception e io
                     | None \<Rightarrow>
                         (case resp_json resp of
                            Inl e \<Rightarrow> handle_exception e io
                          | Inr data \<Rightarrow>
                              (case data_get_ingested data (length docs) of
                                 Inl e \<Rightarrow> handle_exception e io
                               | Inr n \<Rightarrow>
                                   (Inr 0,
                                    io\<lparr>stdout := stdout io @
                                        [py ''Ingested '' @ str_of env n @ py '' documents.'']\<rparr>))))))"

text \<open>
  \<open>sys.exit(main())\<close>: the status is the value \<open>main\<close> returns, and 1 when \<open>main\<close>
  ends with an uncaught exception.
\<close>

definition exit_status :: "script_env \<Rightarrow> int" where
  "exit_status env = (case fst (main env) of Inl e \<Rightarrow> 1 | Inr code \<Rightarrow> code)"


section \<open>Describing a run\<close>

text \<open>The calls a run added to the record, from the state before and the state after.\<close>

definition new_calls :: "'s world \<Rightarrow> 's world \<Rightarrow> call list" where
  "new_calls w w' = drop (length (calls w)) (calls w')"

text \<open>
  The first use of the embedding model loads it; the lifespan's warm-up does so at
  startup, and afterwards nothing is loaded.
\<close>

definition load_calls :: "config \<Rightarrow> 's world \<Rightarrow> call list" where
  "load_calls cfg w =
     (case model_global w of None \<Rightarrow> [Load_Model (EMBEDDING_MODEL cfg)] | Some m \<Rightarrow> [])"

text \<open>A document's \<open>meta\<close> refers to an allocated dict object, when it refers to one.\<close>

definition meta_allocated :: "pyheap \<Rightarrow> DocumentInput \<Rightarrow> bool" where
  "meta_allocated h doc = (case doc_meta doc of None \<Rightarrow> True | Some a \<Rightarrow> a < next_free h)"

text \<open>
  What the loop leaves for one pair of a document and its vector: an item with the
  document's id, the vector, and a \<open>meta\<close> object allocated by the loop, whose content
  is some dict \<open>m\<close> with the snippet set; \<open>m\<close> holds the caller's items when the caller's
  object is an allocated one.
\<close>

definition item_for :: "pyheap \<Rightarrow> pyheap \<Rightarrow> upsert_item \<Rightarrow> DocumentInput \<times> vector \<Rightarrow> bool" where
  "item_for h h' it dv =
     (item_id it = doc_id (fst dv) \<and> item_vector it = snd dv
      \<and> next_free h \<le> item_meta it \<and> item_meta it < next_free h'
      \<and> (\<exists>m. cells h' (item_meta it) =
                 dict_setitem (py ''snippet'') (PStr (snippet_of (doc_text (fst dv)))) m
             \<and> (meta_allocated h (fst dv) \<longrightarrow> m = meta_or_empty (fst dv) h)))"

definition ingest_response :: "IngestRequest \<Rightarrow> pyval" where
  "ingest_response request =
     PDict [(py ''status'', PStr (py ''ok'')),
            (py ''ingested'', PInt (int (length (documents request))))]"

text \<open>The calls that embed text.\<close>

fun is_encode :: "call \<Rightarrow> bool" where
  "is_encode (Encode_One m t) = True"
| "is_encode (Encode_Batch m ts) = True"
| "is_encode c = False"

text \<open>The embedding provider's contract for a batch: one vector per text.\<close>

definition encode_contract :: "'s collab \<Rightarrow> bool" where
  "encode_contract env =
     (\<forall>m texts s vs s'. encode_batch env m texts s = (Inr vs, s') \<longrightarrow> length vs = length texts)"

section \<open>A stub environment\<close>

text \<open>
  The defaults of config.py, and collaborators that never fail: the model embeds every
  text as \<open>[1, 0]\<close>, the store keeps the records it is handed and answers a query with
  all of them.
\<close>

definition default_config :: config where
  "default_config =
     \<lparr>ENDEE_BASE_URL = py ''http://localhost:8080/api/v1'',
      ENDEE_AUTH_TOKEN = None,
      INDEX_NAME = py ''documents'',
      EMBEDDING_MODEL = py ''sentence-transformers/all-MiniLM-L6-v2'',
      EMBEDDING_DIM = 384,
      SPACE_TYPE = py ''cosine''\<rparr>"

definition stub_env :: "pyval list collab" where
  "stub_env =
     \<lparr>load_model = (\<lambda>name s. (Inr 0, s)),
      encode_one = (\<lambda>m t s. (Inr [1, 0], s)),
      encode_batch = (\<lambda>m ts s. (Inr (map (\<lambda>t. [1, 0]) ts), s)),
      get_index = (\<lambda>c name s. (Inr 1, s)),
      create_index = (\<lambda>c name dim space prec s. (Inr (), s)),
      index_upsert = (\<lambda>index records s. (Inr (), s @ records)),
      index_query = (\<lambda>index kwargs s. (Inr (PList s), s))\<rparr>"

text \<open>
  A warm service with one dict object in its store: the \<open>meta\<close> of the first document
  of \<open>request0\<close>, which already has a \<open>snippet\<close> key. The second document has no
  \<open>meta\<close> and a text of 201 characters.
\<close>

definition world0 :: "pyval list world" where
  "world0 =
     \<lparr>ext = [], calls = [], model_global = Some 0,
      heap = \<lparr>cells = (\<lambda>a. if a = 0
                            then [(py ''source'', PStr (py ''a.md'')), (py ''snippet'', PStr (py ''old''))]
                            else []),
              next_free = 1\<rparr>\<rparr>"

definition request0 :: IngestRequest where
  "request0 =
     \<lparr>documents =
        [\<lparr>doc_id = py ''a'', doc_text = py ''hello world'', doc_meta = Some 0\<rparr>,
         \<lparr>doc_id = py ''b'', doc_text = replicate 201 120, doc_meta = None\<rparr>]\<rparr>"

definition batch0 :: "pyval list" where
  "batch0 =
     [PDict [(py ''id'', PStr (py ''a'')),
             (py ''vector'', PList [PFloat 1, PFloat 0]),
             (py ''meta'', PDict [(py ''source'', PStr (py ''a.md'')),
                                  (py ''snippet'', PStr (py ''hello world''))])],
      PDict [(py ''id'', PStr (py ''b'')),
             (py ''vector'', PList [PFloat 1, PFloat 0]),
             (py ''meta'', PDict [(py ''snippet'', PStr (replicate 200 120 @ py ''...''))])]]"

text \<open>
  A query with one filter, the store holding the two records of \<open>batch0\<close>, a vector
  store that has no index yet, and a query body whose \<open>top_k\<close> is out of range.
\<close>

definition query0 :: QueryRequest where
  "query0 = \<lparr>query_text = py ''hello'', top_k = 5,
               filters = Some [(py ''source'', PStr (py ''a.md''))]\<rparr>"

definition world1 :: "pyval list world" where
  "world1 = world0\<lparr>ext := batch0\<rparr>"


definition body0 :: QueryBody where
  "body0 = \<lparr>body_query_text = py ''hello'', body_top_k = Some 51, body_filters = None\<rparr>"

text \<open>
  The script against a docs directory with one Markdown file and one image: a service
  that answers the ingest, a service that is down, a service that answers 500, and an
  empty directory.
\<close>

definition script_env0 :: script_env where
  "script_env0 =
     \<lparr>docs_dir = Some [\<lparr>path_name = py ''intro-notes.md'', path_stem = py ''intro-notes'',
                          path_suffix = py ''.md'', path_is_file = True,
                          path_read_text = py ''hello world''\<rparr>,
                        \<lparr>path_name = py ''logo.png'', path_stem = py ''logo'',
                          path_suffix = py ''.png'', path_is_file = True,
                          path_read_text = []\<rparr>],
      docs_dir_str = py ''data/docs'',
      str_lower = (\<lambda>s. s),
      str_title = (\<lambda>s. s),
      str_of = (\<lambda>v. py ''1''),
      requests_post = (\<lambda>url payload timeout.
         Inr \<lparr>status_code = 200, resp_text = py ''ok'',
              http_error_str = [],
              resp_json = Inr (PDict [(py ''status'', PStr (py ''ok'')), (py ''ingested'', PInt 1)])\<rparr>)\<rparr>"

definition script_env_down :: script_env where
  "script_env_down =
     script_env0\<lparr>requests_post := (\<lambda>url payload timeout.
        Inl \<lparr>exc_class = ConnectionError, exc_str = py ''Connection refused'',
             exc_response_text = None\<rparr>)\<rparr>"

definition script_env_500 :: script_env where
  "script_env_500 =
     script_env0\<lparr>requests_post := (\<lambda>url payload timeout.
        Inr \<lparr>status_code = 500, resp_text = py ''Internal Server Error'',
             http_error_str = py ''500 Server Error'',
             resp_json = Inr PNone\<rparr>)\<rparr>"

definition script_env_empty :: script_env where
  "script_env_empty = script_env0\<lparr>docs_dir := Some []\<rparr>"

section \<open>Dicts\<close>

lemma dict_get_setitem_same: "dict_get (dict_setitem k v d) k = Some v"
  by (induction d) auto

lemma dict_get_setitem_other: "k' \<noteq> k \<Longrightarrow> dict_get (dict_setitem k v d) k' = dict_get d k'"
  by (induction d) auto

lemma filter_setitem_other:
  "filter (\<lambda>kv. fst kv \<noteq> k) (dict_setitem k v d) = filter (\<lambda>kv. fst kv \<noteq> k) d"
  by (induction d) auto

section \<open>Filter normalisation\<close>

lemma normalize_filter_length: "length (normalize_filter f) = length f"
  by (simp add: normalize_filter_def)

lemma normalize_filter_nth:
  "i < length f \<Longrightarrow>
     normalize_filter f ! i = PDict [(fst (f ! i), PDict [(py ''$eq'', snd (f ! i))])]"
  by (simp add: normalize_filter_def case_prod_beta)

section \<open>Calls and store of the helpers\<close>

lemma invoke_result:
  assumes "invoke c f w = (r, w')"
  shows "f (ext w) = (r, ext w')" and "calls w' = calls w @ [c]"
    and "model_global w' = model_global w" and "heap w' = heap w"
  using assms by (auto simp: invoke_def split: prod.splits)

lemma get_model_result:
  assumes "get_model env cfg w = (r, w')"
  shows "calls w' = calls w @ load_calls cfg w" and "heap w' = heap w"
  using assms
  by (auto simp: get_model_def load_calls_def invoke_def split: option.splits prod.splits sum.splits)

lemma embed_texts_Inr:
  assumes "embed_texts env cfg texts w = (Inr vs, w')"
  shows "\<exists>m s s'. calls w' = calls w @ load_calls cfg w @ [Encode_Batch m texts]
            \<and> encode_batch env m texts s = (Inr vs, s')" and "heap w' = heap w"
proof -
  obtain r1 w1 where g: "get_model env cfg w = (r1, w1)"
    by (cases "get_model env cfg w")
  from assms g obtain m where m: "r1 = Inr m"
    and i: "invoke (Encode_Batch m texts) (encode_batch env m texts) w1 = (Inr vs, w')"
    by (cases r1) (auto simp: embed_texts_def)
  from get_model_result [OF g] invoke_result [OF i]
  show "\<exists>m s s'. calls w' = calls w @ load_calls cfg w @ [Encode_Batch m texts]
            \<and> encode_batch env m texts s = (Inr vs, s')" and "heap w' = heap w"
    by auto
qed

lemma embed_texts_Inl:
  assumes "embed_texts env cfg texts w = (Inl e, w')"
  shows "\<exists>cs. calls w' = calls w @ load_calls cfg w @ cs \<and> (cs = [] \<or> (\<exists>m. cs = [Encode_Batch m texts]))"
    and "heap w' = heap w"
proof -
  obtain r1 w1 where g: "get_model env cfg w = (r1, w1)"
    by (cases "get_model env cfg w")
  show "\<exists>cs. calls w' = calls w @ load_calls cfg w @ cs \<and> (cs = [] \<or> (\<exists>m. cs = [Encode_Batch m texts]))"
    and "heap w' = heap w"
  proof (atomize (full), cases r1)
    case (Inl e1)
    with assms g have "w' = w1" by (simp add: embed_texts_def)
    with get_model_result [OF g] show "(\<exists>cs. calls w' = calls w @ load_calls cfg w @ cs \<and> (cs = [] \<or> (\<exists>m. cs = [Encode_Batch m texts]))) \<and> heap w' = heap w" by simp
  next
    case (Inr m)
    with assms g have i: "invoke (Encode_Batch m texts) (encode_batch env m texts) w1 = (Inl e, w')"
      by (simp add: embed_texts_def)
    from get_model_result [OF g] invoke_result [OF i]
    show "(\<exists>cs. calls w' = calls w @ load_calls cfg w @ cs \<and> (cs = [] \<or> (\<exists>m. cs = [Encode_Batch m texts]))) \<and> heap w' = heap w" by auto
  qed
qed

lemma upsert_documents_result:
  assumes "upsert_documents env cfg batch w = (r, w')"
  shows "heap w' = heap w"
    and "(\<exists>e. r = Inl e \<and> calls w' = calls w @ [Get_Index (get_client cfg) (INDEX_NAME cfg)])
       \<or> (\<exists>index. calls w' = calls w @ [Get_Index (get_client cfg) (INDEX_NAME cfg), Index_Upsert index batch])"
proof -
  let ?g = "Get_Index (get_client cfg) (INDEX_NAME cfg)"
  obtain r1 w1 where g: "invoke ?g (get_index env (get_client cfg) (INDEX_NAME cfg)) w = (r1, w1)"
    by (cases "invoke ?g (get_index env (get_client cfg) (INDEX_NAME cfg)) w")
  show "heap w' = heap w"
    and "(\<exists>e. r = Inl e \<and> calls w' = calls w @ [?g])
       \<or> (\<exists>index. calls w' = calls w @ [?g, Index_Upsert index batch])"
  proof (atomize (full), cases r1)
    case (Inl e1)
    with assms g have "w' = w1" "r = Inl e1" by (simp_all add: upsert_documents_def Let_def)
    with invoke_result [OF g] show "heap w' = heap w \<and> ((\<exists>e. r = Inl e \<and> calls w' = calls w @ [?g])
       \<or> (\<exists>index. calls w' = calls w @ [?g, Index_Upsert index batch]))" by simp
  next
    case (Inr index)
    with assms g have i: "invoke (Index_Upsert index batch) (index_upsert env index batch) w1 = (r, w')"
      by (simp add: upsert_documents_def Let_def)
    from invoke_result [OF g] invoke_result [OF i]
    show "heap w' = heap w \<and> ((\<exists>e. r = Inl e \<and> calls w' = calls w @ [?g])
       \<or> (\<exists>index. calls w' = calls w @ [?g, Index_Upsert index batch]))" by auto
  qed
qed

lemma embed_texts_Inr_ext:
  assumes "embed_texts env cfg texts w = (Inr vs, w')"
  shows "\<exists>m s. calls w' = calls w @ load_calls cfg w @ [Encode_Batch m texts]
            \<and> encode_batch env m texts s = (Inr vs, ext w')"
proof -
  obtain r1 w1 where g: "get_model env cfg w = (r1, w1)"
    by (cases "get_model env cfg w")
  from assms g obtain m where m: "r1 = Inr m"
    and i: "invoke (Encode_Batch m texts) (encode_batch env m texts) w1 = (Inr vs, w')"
    by (cases r1) (auto simp: embed_texts_def)
  from get_model_result [OF g] invoke_result [OF i] show ?thesis
    by auto
qed

lemma upsert_documents_Inr:
  assumes "upsert_documents env cfg batch w = (Inr u, w')"
  shows "\<exists>index s.
           get_index env (get_client cfg) (INDEX_NAME cfg) (ext w) = (Inr index, s)
         \<and> index_upsert env index batch s = (Inr u, ext w')
         \<and> calls w' = calls w @ [Get_Index (get_client cfg) (INDEX_NAME cfg),
                                  Index_Upsert index batch]"
proof -
  let ?g = "Get_Index (get_client cfg) (INDEX_NAME cfg)"
  obtain r1 w1 where g: "invoke ?g (get_index env (get_client cfg) (INDEX_NAME cfg)) w = (r1, w1)"
    by (cases "invoke ?g (get_index env (get_client cfg) (INDEX_NAME cfg)) w")
  from assms g obtain index where r1: "r1 = Inr index"
    and i: "invoke (Index_Upsert index batch) (index_upsert env index batch) w1 = (Inr u, w')"
    by (cases r1) (auto simp: upsert_documents_def Let_def)
  from invoke_result [OF g [unfolded r1]] invoke_result [OF i] show ?thesis
    by auto
qed

section \<open>The ingest loop\<close>

lemma meta_or_empty_frame:
  assumes "meta_allocated h doc" and "\<forall>a<next_free h. cells h2 a = cells h a"
  shows "meta_or_empty doc h2 = meta_or_empty doc h"
  using assms by (simp add: meta_or_empty_def meta_allocated_def split: option.splits)

lemma ingest_loop_spec:
  assumes "ingest_loop dvs acc h = (items, h')"
  shows "\<exists>new. items = acc @ new \<and> list_all2 (item_for h h') new dvs
           \<and> next_free h' = next_free h + length dvs
           \<and> (\<forall>a<next_free h. cells h' a = cells h a)"
  using assms
proof (induction dvs arbitrary: acc h)
  case Nil
  then show ?case by simp
next
  case (Cons dv rest)
  obtain doc vector where dv: "dv = (doc, vector)" by (cases dv)
  define a0 where "a0 = next_free h"
  define c0 where "c0 = dict_setitem (py ''snippet'') (PStr (snippet_of (doc_text doc))) (meta_or_empty doc h)"
  define h2 where "h2 = heap_setitem a0 (py ''snippet'') (PStr (snippet_of (doc_text doc)))
                         (snd (dict_new (meta_or_empty doc h) h))"
  define it0 where "it0 = \<lparr>item_id = doc_id doc, item_vector = vector, item_meta = a0\<rparr>"
  have step: "ingest_loop rest (acc @ [it0]) h2 = (items, h')"
    using Cons.prems
    by (simp add: dv dict_new_def Let_def a0_def h2_def it0_def)
  from Cons.IH [OF step] obtain new where
    items: "items = (acc @ [it0]) @ new"
    and all: "list_all2 (item_for h2 h') new rest"
    and nf: "next_free h' = next_free h2 + length rest"
    and frame: "\<forall>a<next_free h2. cells h' a = cells h2 a"
    by blast
  have h2_next: "next_free h2 = Suc a0" and h2_a0: "cells h2 a0 = c0"
    and h2_old: "\<forall>a<next_free h. cells h2 a = cells h a"
    by (simp_all add: h2_def a0_def c0_def dict_new_def heap_setitem_def)
  have first: "item_for h h' it0 dv"
    unfolding item_for_def
    using nf frame h2_next h2_a0
    by (auto simp: it0_def dv a0_def c0_def)
  have lift: "item_for h h' it x" if "item_for h2 h' it x" for it x
  proof -
    from that obtain m where
      m: "cells h' (item_meta it) = dict_setitem (py ''snippet'') (PStr (snippet_of (doc_text (fst x)))) m"
      and mm: "meta_allocated h2 (fst x) \<longrightarrow> m = meta_or_empty (fst x) h2"
      unfolding item_for_def by blast
    have "m = meta_or_empty (fst x) h" if al: "meta_allocated h (fst x)"
    proof -
      from al have "meta_allocated h2 (fst x)"
        by (simp add: meta_allocated_def h2_next a0_def split: option.splits)
      with mm have "m = meta_or_empty (fst x) h2" by simp
      also have "\<dots> = meta_or_empty (fst x) h"
        using al h2_old by (rule meta_or_empty_frame)
      finally show ?thesis .
    qed
    with m \<open>item_for h2 h' it x\<close> show ?thesis
      unfolding item_for_def by (auto simp: h2_next a0_def)
  qed
  from all have rest_ok: "list_all2 (item_for h h') new rest"
    by (rule list_all2_mono) (rule lift)
  have "items = acc @ (it0 # new)" using items by simp
  moreover have "list_all2 (item_for h h') (it0 # new) (dv # rest)"
    using first rest_ok by simp
  moreover have "next_free h' = next_free h + length (dv # rest)"
    using nf h2_next by (simp add: a0_def)
  moreover have "\<forall>a<next_free h. cells h' a = cells h a"
    using frame h2_old h2_next by (simp add: a0_def)
  ultimately show ?case by blast
qed

lemma ingest_cases:
  assumes ne: "documents request \<noteq> []" and run: "ingest env cfg request w = (r, w')"
  shows "(\<exists>e cs. r = Inl e \<and> heap w' = heap w
            \<and> new_calls w w' = load_calls cfg w @ cs
            \<and> (cs = [] \<or> (\<exists>m. cs = [Encode_Batch m (map doc_text (documents request))])))
       \<or> (\<exists>m s s' vectors items us.
            encode_batch env m (map doc_text (documents request)) s = (Inr vectors, s')
            \<and> list_all2 (item_for (heap w) (heap w')) items (zip (documents request) vectors)
            \<and> (\<forall>a<next_free (heap w). cells (heap w') a = cells (heap w) a)
            \<and> new_calls w w' = load_calls cfg w @
                  [Encode_Batch m (map doc_text (documents request)),
                   Get_Index (get_client cfg) (INDEX_NAME cfg)] @ us
            \<and> ((\<exists>e. r = Inl e \<and> us = [])
               \<or> (\<exists>index. us = [Index_Upsert index (map (item_value (heap w')) items)]
                     \<and> (r = Inr (ingest_response request) \<or> (\<exists>e. r = Inl e)))))"
proof -
  let ?texts = "map doc_text (documents request)"
  obtain r1 w1 where emb: "embed_texts env cfg ?texts w = (r1, w1)"
    by (cases "embed_texts env cfg ?texts w")
  show ?thesis
  proof (cases r1)
    case (Inl e)
    with ne run emb have "r = Inl e" "w' = w1" by (simp_all add: ingest_def)
    with embed_texts_Inl [OF emb [unfolded Inl]] show ?thesis
      by (auto simp: new_calls_def)
  next
    case (Inr vectors)
    obtain items h2 where loop: "ingest_loop (zip (documents request) vectors) [] (heap w1) = (items, h2)"
      by (cases "ingest_loop (zip (documents request) vectors) [] (heap w1)")
    obtain r2 w2 where ups: "upsert_documents env cfg (map (item_value h2) items) (w1\<lparr>heap := h2\<rparr>) = (r2, w2)"
      by (cases "upsert_documents env cfg (map (item_value h2) items) (w1\<lparr>heap := h2\<rparr>)")
    from ne run emb Inr loop ups have w': "w' = w2"
      and r: "r = (case r2 of Inl e \<Rightarrow> Inl e | Inr u \<Rightarrow> Inr (ingest_response request))"
      by (auto simp: ingest_def ingest_response_def split: sum.splits)
    from embed_texts_Inr [OF emb [unfolded Inr]] obtain m s s' where
      c1: "calls w1 = calls w @ load_calls cfg w @ [Encode_Batch m ?texts]"
      and enc: "encode_batch env m ?texts s = (Inr vectors, s')"
      and h1: "heap w1 = heap w"
      by blast
    from ingest_loop_spec [OF loop] have
      all: "list_all2 (item_for (heap w) h2) items (zip (documents request) vectors)"
      and frame: "\<forall>a<next_free (heap w). cells h2 a = cells (heap w) a"
      by (auto simp: h1)
    from upsert_documents_result [OF ups] have hw2: "heap w2 = h2"
      and c2: "(\<exists>e. r2 = Inl e \<and> calls w2 = calls w1 @ [Get_Index (get_client cfg) (INDEX_NAME cfg)])
         \<or> (\<exists>index. calls w2 = calls w1 @ [Get_Index (get_client cfg) (INDEX_NAME cfg),
                Index_Upsert index (map (item_value h2) items)])"
      by simp_all
    have "\<exists>us. new_calls w w' = load_calls cfg w @
                  [Encode_Batch m ?texts, Get_Index (get_client cfg) (INDEX_NAME cfg)] @ us
            \<and> ((\<exists>e. r = Inl e \<and> us = [])
               \<or> (\<exists>index. us = [Index_Upsert index (map (item_value (heap w')) items)]
                     \<and> (r = Inr (ingest_response request) \<or> (\<exists>e. r = Inl e))))"
      using c2 c1 r w' hw2
      by (fastforce simp: new_calls_def split: sum.splits)
    with enc all frame w' hw2 show ?thesis by blast
  qed
qed

lemma ingest_Inr:
  assumes run: "ingest env cfg request w = (Inr response, w')"
  shows "documents request \<noteq> [] \<and> response = ingest_response request
     \<and> (\<exists>m s0 s1 vectors items index s2.
           encode_batch env m (map doc_text (documents request)) s0 = (Inr vectors, s1)
         \<and> get_index env (get_client cfg) (INDEX_NAME cfg) s1 = (Inr index, s2)
         \<and> index_upsert env index (map (item_value (heap w')) items) s2 = (Inr (), ext w')
         \<and> list_all2 (item_for (heap w) (heap w')) items (zip (documents request) vectors)
         \<and> new_calls w w' = load_calls cfg w @
              [Encode_Batch m (map doc_text (documents request)),
               Get_Index (get_client cfg) (INDEX_NAME cfg),
               Index_Upsert index (map (item_value (heap w')) items)])"
proof -
  let ?texts = "map doc_text (documents request)"
  have ne: "documents request \<noteq> []"
    using run by (auto simp: ingest_def)
  obtain r1 w1 where emb: "embed_texts env cfg ?texts w = (r1, w1)"
    by (cases "embed_texts env cfg ?texts w")
  from ne run emb obtain vectors where r1: "r1 = Inr vectors"
    by (cases r1) (auto simp: ingest_def)
  obtain items h2 where loop: "ingest_loop (zip (documents request) vectors) [] (heap w1) = (items, h2)"
    by (cases "ingest_loop (zip (documents request) vectors) [] (heap w1)")
  obtain r2 w2 where ups: "upsert_documents env cfg (map (item_value h2) items) (w1\<lparr>heap := h2\<rparr>) = (r2, w2)"
    by (cases "upsert_documents env cfg (map (item_value h2) items) (w1\<lparr>heap := h2\<rparr>)")
  from ne run emb r1 loop ups have w': "w' = w2" and r2: "r2 = Inr ()"
    and resp: "response = ingest_response request"
    by (auto simp: ingest_def ingest_response_def split: sum.splits)
  from embed_texts_Inr_ext [OF emb [unfolded r1]] obtain m s0 where
    c1: "calls w1 = calls w @ load_calls cfg w @ [Encode_Batch m ?texts]"
    and enc: "encode_batch env m ?texts s0 = (Inr vectors, ext w1)"
    by blast
  from embed_texts_Inr(2) [OF emb [unfolded r1]] have h1: "heap w1 = heap w" .
  from ingest_loop_spec [OF loop] have
    all: "list_all2 (item_for (heap w) h2) items (zip (documents request) vectors)"
    by (auto simp: h1)
  from upsert_documents_result(1) [OF ups] have hw2: "heap w2 = h2" by simp
  from upsert_documents_Inr [OF ups [unfolded r2]] obtain index s2 where
    gi: "get_index env (get_client cfg) (INDEX_NAME cfg) (ext w1) = (Inr index, s2)"
    and iu: "index_upsert env index (map (item_value h2) items) s2 = (Inr (), ext w2)"
    and c2: "calls w2 = calls w1 @ [Get_Index (get_client cfg) (INDEX_NAME cfg),
                                    Index_Upsert index (map (item_value h2) items)]"
    by auto
  have nc: "new_calls w w' = load_calls cfg w @
              [Encode_Batch m ?texts, Get_Index (get_client cfg) (INDEX_NAME cfg),
               Index_Upsert index (map (item_value (heap w')) items)]"
    using c1 c2 w' hw2 by (simp add: new_calls_def)
  from enc gi iu all nc w' hw2 have
    "\<exists>m s0 s1 vectors items index s2.
           encode_batch env m ?texts s0 = (Inr vectors, s1)
         \<and> get_index env (get_client cfg) (INDEX_NAME cfg) s1 = (Inr index, s2)
         \<and> index_upsert env index (map (item_value (heap w')) items) s2 = (Inr (), ext w')
         \<and> list_all2 (item_for (heap w) (heap w')) items (zip (documents request) vectors)
         \<and> new_calls w w' = load_calls cfg w @
              [Encode_Batch m ?texts, Get_Index (get_client cfg) (INDEX_NAME cfg),
               Index_Upsert index (map (item_value (heap w')) items)]"
    by blast
  with ne resp show ?thesis by blast
qed

section \<open>The batch of an ingest\<close>

lemma ingest_upsert_batch:
  assumes run: "ingest env cfg request w = (r, w')"
    and ups: "Index_Upsert index batch \<in> set (new_calls w w')"
  shows "\<exists>m s s' vectors items.
           encode_batch env m (map doc_text (documents request)) s = (Inr vectors, s')
           \<and> list_all2 (item_for (heap w) (heap w')) items (zip (documents request) vectors)
           \<and> batch = map (item_value (heap w')) items
           \<and> (\<forall>a<next_free (heap w). cells (heap w') a = cells (heap w) a)
           \<and> new_calls w w' = load_calls cfg w @
                 [Encode_Batch m (map doc_text (documents request)),
                  Get_Index (get_client cfg) (INDEX_NAME cfg),
                  Index_Upsert index batch]"
proof -
  have ne: "documents request \<noteq> []"
  proof
    assume "documents request = []"
    with run have "w' = w" by (simp add: ingest_def)
    with ups show False by (simp add: new_calls_def)
  qed
  have nl: "Index_Upsert index batch \<notin> set (load_calls cfg w)"
    by (simp add: load_calls_def split: option.splits)
  from ingest_cases [OF ne run] consider
    (failed) cs where "new_calls w w' = load_calls cfg w @ cs"
      "cs = [] \<or> (\<exists>m. cs = [Encode_Batch m (map doc_text (documents request))])"
  | (store) m s s' vectors items us where
      "encode_batch env m (map doc_text (documents request)) s = (Inr vectors, s')"
      "list_all2 (item_for (heap w) (heap w')) items (zip (documents request) vectors)"
      "\<forall>a<next_free (heap w). cells (heap w') a = cells (heap w) a"
      "new_calls w w' = load_calls cfg w @
        [Encode_Batch m (map doc_text (documents request)),
         Get_Index (get_client cfg) (INDEX_NAME cfg)] @ us"
      "us = [] \<or> (\<exists>index. us = [Index_Upsert index (map (item_value (heap w')) items)])"
    by blast
  then show ?thesis
  proof cases
    case failed
    with ups nl show ?thesis by auto
  next
    case store
    from ups nl store(4,5) have "us = [Index_Upsert index batch]"
      and "batch = map (item_value (heap w')) items"
      by auto
    with store(1-4) have "new_calls w w' = load_calls cfg w @
        [Encode_Batch m (map doc_text (documents request)),
         Get_Index (get_client cfg) (INDEX_NAME cfg),
         Index_Upsert index batch]"
      by simp
    with store(1-3) \<open>batch = map (item_value (heap w')) items\<close> show ?thesis by blast
  qed
qed

lemma batch_record:
  assumes all: "list_all2 (item_for h h') items (zip docs vectors)"
    and i: "i < length (map (item_value h') items)"
  shows "i < length docs \<and> i < length vectors
     \<and> (\<exists>m. map (item_value h') items ! i =
              PDict [(py ''id'', PStr (doc_id (docs ! i))),
                     (py ''vector'', vector_value (vectors ! i)),
                     (py ''meta'', PDict (dict_setitem (py ''snippet'')
                                            (PStr (snippet_of (doc_text (docs ! i)))) m))]
            \<and> (meta_allocated h (docs ! i) \<longrightarrow> m = meta_or_empty (docs ! i) h))"
proof -
  from all have len: "length items = length (zip docs vectors)"
    by (rule list_all2_lengthD)
  with i have il: "i < length docs" "i < length vectors" "i < length items" by simp_all
  from all il(3) have "item_for h h' (items ! i) (zip docs vectors ! i)"
    by (rule list_all2_nthD)
  with il have "item_for h h' (items ! i) (docs ! i, vectors ! i)" by simp
  then obtain m where
    "item_id (items ! i) = doc_id (docs ! i)" "item_vector (items ! i) = vectors ! i"
    "cells h' (item_meta (items ! i)) =
       dict_setitem (py ''snippet'') (PStr (snippet_of (doc_text (docs ! i)))) m"
    "meta_allocated h (docs ! i) \<longrightarrow> m = meta_or_empty (docs ! i) h"
    unfolding item_for_def by auto
  with il show ?thesis
    by (simp add: item_value_def) blast
qed

section \<open>Calls of a query\<close>

lemma embed_text_Inr:
  assumes "embed_text env cfg t w = (Inr v, w')"
  shows "\<exists>m s. calls w' = calls w @ load_calls cfg w @ [Encode_One m t]
            \<and> encode_one env m t s = (Inr v, ext w')"
proof -
  obtain r1 w1 where g: "get_model env cfg w = (r1, w1)"
    by (cases "get_model env cfg w")
  from assms g obtain m where m: "r1 = Inr m"
    and i: "invoke (Encode_One m t) (encode_one env m t) w1 = (Inr v, w')"
    by (cases r1) (auto simp: embed_text_def)
  from get_model_result [OF g] invoke_result [OF i] show ?thesis
    by auto
qed

lemma embed_text_Inl:
  assumes "embed_text env cfg t w = (Inl e, w')"
  shows "\<exists>cs. calls w' = calls w @ load_calls cfg w @ cs \<and> (cs = [] \<or> (\<exists>m. cs = [Encode_One m t]))"
proof -
  obtain r1 w1 where g: "get_model env cfg w = (r1, w1)"
    by (cases "get_model env cfg w")
  show ?thesis
  proof (cases r1)
    case (Inl e1)
    with assms g have "w' = w1" by (simp add: embed_text_def)
    with get_model_result [OF g] show ?thesis by simp
  next
    case (Inr m)
    with assms g have i: "invoke (Encode_One m t) (encode_one env m t) w1 = (Inl e, w')"
      by (simp add: embed_text_def)
    from get_model_result [OF g] invoke_result [OF i] show ?thesis by auto
  qed
qed

lemma query_similar_result:
  assumes "query_similar env cfg v k f w = (r, w')"
  shows "(\<exists>e. r = Inl e \<and> calls w' = calls w @ [Get_Index (get_client cfg) (INDEX_NAME cfg)])
       \<or> (\<exists>index s. calls w' = calls w @ [Get_Index (get_client cfg) (INDEX_NAME cfg),
                                          Index_Query index (query_kwargs v k f)]
             \<and> index_query env index (query_kwargs v k f) s = (r, ext w'))"
proof -
  let ?g = "Get_Index (get_client cfg) (INDEX_NAME cfg)"
  obtain r1 w1 where g: "invoke ?g (get_index env (get_client cfg) (INDEX_NAME cfg)) w = (r1, w1)"
    by (cases "invoke ?g (get_index env (get_client cfg) (INDEX_NAME cfg)) w")
  show ?thesis
  proof (cases r1)
    case (Inl e1)
    with assms g have "w' = w1" "r = Inl e1" by (simp_all add: query_similar_def Let_def)
    with invoke_result [OF g] show ?thesis by simp
  next
    case (Inr index)
    with assms g have i: "invoke (Index_Query index (query_kwargs v k f))
         (index_query env index (query_kwargs v k f)) w1 = (r, w')"
      by (simp add: query_similar_def Let_def)
    from invoke_result [OF g] invoke_result [OF i] show ?thesis by auto
  qed
qed

lemma query_cases:
  assumes run: "query env cfg request w = (r, w')"
  shows "(\<exists>e cs. r = Inl e \<and> new_calls w w' = load_calls cfg w @ cs
            \<and> (cs = [] \<or> (\<exists>m. cs = [Encode_One m (query_text request)])))
       \<or> (\<exists>m v s s1 us.
            encode_one env m (query_text request) s = (Inr v, s1)
            \<and> new_calls w w' = load_calls cfg w @
                 [Encode_One m (query_text request), Get_Index (get_client cfg) (INDEX_NAME cfg)] @ us
            \<and> ((\<exists>e. r = Inl e \<and> us = [])
               \<or> (\<exists>index s2 res.
                    us = [Index_Query index (query_kwargs v (top_k request) (filters request))]
                    \<and> index_query env index (query_kwargs v (top_k request) (filters request)) s2
                        = (res, ext w')
                    \<and> r = (case res of Inl e \<Rightarrow> Inl e
                            | Inr results \<Rightarrow> Inr (PDict [(py ''results'', results)])))))"
proof -
  obtain r1 w1 where emb: "embed_text env cfg (query_text request) w = (r1, w1)"
    by (cases "embed_text env cfg (query_text request) w")
  show ?thesis
  proof (cases r1)
    case (Inl e)
    with run emb have "r = Inl e" "w' = w1" by (simp_all add: query_def)
    with embed_text_Inl [OF emb [unfolded Inl]] show ?thesis
      by (auto simp: new_calls_def)
  next
    case (Inr v)
    let ?kw = "query_kwargs v (top_k request) (filters request)"
    obtain r2 w2 where qs: "query_similar env cfg v (top_k request) (filters request) w1 = (r2, w2)"
      by (cases "query_similar env cfg v (top_k request) (filters request) w1")
    from run emb Inr qs have w': "w' = w2"
      and r: "r = (case r2 of Inl e \<Rightarrow> Inl e | Inr results \<Rightarrow> Inr (PDict [(py ''results'', results)]))"
      by (auto simp: query_def split: sum.splits)
    from embed_text_Inr [OF emb [unfolded Inr]] obtain m s where
      c1: "calls w1 = calls w @ load_calls cfg w @ [Encode_One m (query_text request)]"
      and enc: "encode_one env m (query_text request) s = (Inr v, ext w1)"
      by blast
    from query_similar_result [OF qs] have
      "\<exists>us. new_calls w w' = load_calls cfg w @
                 [Encode_One m (query_text request), Get_Index (get_client cfg) (INDEX_NAME cfg)] @ us
            \<and> ((\<exists>e. r = Inl e \<and> us = [])
               \<or> (\<exists>index s2 res. us = [Index_Query index ?kw]
                    \<and> index_query env index ?kw s2 = (res, ext w')
                    \<and> r = (case res of Inl e \<Rightarrow> Inl e
                            | Inr results \<Rightarrow> Inr (PDict [(py ''results'', results)]))))"
      using c1 r w' by (fastforce simp: new_calls_def)
    with enc show ?thesis by blast
  qed
qed

lemma query_index_query_kwargs:
  assumes run: "query env cfg request w = (r, w')"
    and q: "Index_Query index kwargs \<in> set (new_calls w w')"
  shows "\<exists>v. kwargs = query_kwargs v (top_k request) (filters request)"
proof -
  have nl: "Index_Query index kwargs \<notin> set (load_calls cfg w)"
    by (simp add: load_calls_def split: option.splits)
  from query_cases [OF run] q nl show ?thesis
    by (elim disjE exE conjE) auto
qed

section \<open>Runs in the stub environment\<close>

lemma stub_env_contract: "encode_contract stub_env"
  by (auto simp: encode_contract_def stub_env_def)

lemma run0_calls:
  "new_calls world0 (snd (ingest stub_env default_config request0 world0)) =
     [Encode_Batch 0 [py ''hello world'', replicate 201 120],
      Get_Index (get_client default_config) (py ''documents''),
      Index_Upsert 1 batch0]"
  by (simp add: ingest_def embed_texts_def get_model_def invoke_def upsert_documents_def
      stub_env_def world0_def request0_def batch0_def default_config_def new_calls_def
      dict_new_def heap_setitem_def meta_or_empty_def snippet_of_def item_value_def
      vector_value_def Let_def)

lemma run0_result:
  "fst (ingest stub_env default_config request0 world0) = Inr (PDict [(py ''status'', PStr (py ''ok'')), (py ''ingested'', PInt 2)])"
  by (simp add: ingest_def embed_texts_def get_model_def invoke_def upsert_documents_def
      stub_env_def world0_def request0_def default_config_def
      dict_new_def heap_setitem_def Let_def split: prod.splits)


lemma run0_ext:
  "ext (snd (ingest stub_env default_config request0 world0)) = batch0"
  by (simp add: ingest_def embed_texts_def get_model_def invoke_def upsert_documents_def
      stub_env_def world0_def request0_def batch0_def default_config_def
      dict_new_def heap_setitem_def meta_or_empty_def snippet_of_def item_value_def
      vector_value_def Let_def)

lemma query0_run:
  "query stub_env default_config query0 world1 =
     (Inr (PDict [(py ''results'', PList batch0)]),
      world1\<lparr>calls := [Encode_One 0 (py ''hello''),
                         Get_Index (get_client default_config) (py ''documents''),
                         Index_Query 1 [(py ''vector'', PList [PFloat 1, PFloat 0]),
                                        (py ''top_k'', PInt 5),
                                        (py ''filter'', PList [PDict [(py ''source'',
                                            PDict [(py ''$eq'', PStr (py ''a.md''))])]])]]\<rparr>)"
  by (simp add: query_def embed_text_def get_model_def invoke_def query_similar_def
      query_kwargs_def normalize_filter_def vector_value_def
      stub_env_def world1_def world0_def query0_def default_config_def Let_def)

lemma query1_calls:
  "new_calls world1 (snd (query stub_env default_config (query0\<lparr>filters := Some []\<rparr>) world1)) =
     [Encode_One 0 (py ''hello''),
      Get_Index (get_client default_config) (py ''documents''),
      Index_Query 1 [(py ''vector'', PList [PFloat 1, PFloat 0]), (py ''top_k'', PInt 5)]]"
  by (simp add: query_def embed_text_def get_model_def invoke_def query_similar_def
      query_kwargs_def vector_value_def new_calls_def
      stub_env_def world1_def world0_def query0_def default_config_def Let_def)

section \<open>The bulk loader\<close>

lemma handle_exception_status:
  "(case fst (handle_exception e io) of Inl e \<Rightarrow> 1 | Inr code \<Rightarrow> code) = (1::int)"
  by (simp add: handle_exception_def split: exn_class.splits)

lemma handle_exception_posts: "posts (snd (handle_exception e io)) = posts io"
  by (simp add: handle_exception_def split: exn_class.splits)

lemma handle_exception_stdout:
  "stdout (snd (handle_exception e io)) =
     stdout io @
       (case exc_class e of
          ConnectionError \<Rightarrow> [connection_message]
        | RequestException \<Rightarrow>
            [py ''Error: '' @ exc_str e] @ (case exc_response_text e of None \<Rightarrow> [] | Some t \<Rightarrow> [t])
        | OtherException \<Rightarrow> [])"
  by (simp add: handle_exception_def split: exn_class.splits)

lemma main_posts:
  "posts (snd (main env)) =
     (if fst (load_documents env) = [] then []
      else [(ingest_url, payload_of (fst (load_documents env)), 60)])"
  by (simp add: main_def Let_def handle_exception_posts
      split: prod.splits sum.splits option.splits)

lemma load_documents_env0:
  "load_documents script_env0 =
     ([\<lparr>ld_id = py ''intro-notes'', ld_text = py ''hello world'',
        ld_meta = [(py ''title'', PStr (py ''intro notes'')),
                   (py ''source'', PStr (py ''intro-notes.md'')),
                   (py ''snippet'', PStr (py ''hello world''))]\<rparr>], [])"
  by (simp add: load_documents_def script_env0_def replace_char_def Let_def)

lemma load_documents_variants:
  "load_documents script_env_down = load_documents script_env0"
  "load_documents script_env_500 = load_documents script_env0"
  "load_documents script_env_empty = ([], [])"
  by (simp_all add: load_documents_def script_env_down_def script_env_500_def
      script_env_empty_def script_env0_def replace_char_def Let_def)

section \<open>Claims\<close>

text \<open>
  C1. Whenever an ingest hands a batch to the vector store, the \<open>i\<close>-th record of the
  batch belongs to the \<open>i\<close>-th document of the request, and the \<open>snippet\<close> entry of its
  metadata is the first 200 characters of the document's text followed by \<open>...\<close> when
  the text is longer than 200 characters, and the text itself when it has at most 200.
\<close>

theorem ingest_snippet:
  assumes "ingest env cfg request w = (r, w')"
    and "Index_Upsert index batch \<in> set (new_calls w w')"
    and "i < length batch"
  shows "i < length (documents request)
     \<and> (\<exists>v meta snippet.
           batch ! i = PDict [(py ''id'', PStr (doc_id (documents request ! i))),
                              (py ''vector'', v), (py ''meta'', PDict meta)]
         \<and> dict_get meta (py ''snippet'') = Some (PStr snippet)
         \<and> (length (doc_text (documents request ! i)) > 200 \<longrightarrow>
               snippet = take 200 (doc_text (documents request ! i)) @ py ''...'')
         \<and> (length (doc_text (documents request ! i)) \<le> 200 \<longrightarrow>
               snippet = doc_text (documents request ! i)))"
proof -
  from ingest_upsert_batch [OF assms(1,2)] obtain vectors items where
    all: "list_all2 (item_for (heap w) (heap w')) items (zip (documents request) vectors)"
    and batch: "batch = map (item_value (heap w')) items"
    by blast
  from batch_record [OF all] assms(3) batch obtain m where
    il: "i < length (documents request)"
    and rec: "batch ! i =
              PDict [(py ''id'', PStr (doc_id (documents request ! i))),
                     (py ''vector'', vector_value (vectors ! i)),
                     (py ''meta'', PDict (dict_setitem (py ''snippet'')
                          (PStr (snippet_of (doc_text (documents request ! i)))) m))]"
    by blast
  have "dict_get (dict_setitem (py ''snippet'')
          (PStr (snippet_of (doc_text (documents request ! i)))) m) (py ''snippet'')
        = Some (PStr (snippet_of (doc_text (documents request ! i))))"
    by (rule dict_get_setitem_same)
  moreover have "length (doc_text (documents request ! i)) > 200 \<longrightarrow>
      snippet_of (doc_text (documents request ! i)) = take 200 (doc_text (documents request ! i)) @ py ''...''"
    and "length (doc_text (documents request ! i)) \<le> 200 \<longrightarrow>
      snippet_of (doc_text (documents request ! i)) = doc_text (documents request ! i)"
    by (simp_all add: snippet_of_def)
  ultimately show ?thesis using il rec by blast
qed

theorem ingest_snippet_witness:
  "Index_Upsert 1 batch0 \<in> set (new_calls world0 (snd (ingest stub_env default_config request0 world0)))
   \<and> (1::nat) < length batch0
   \<and> (\<exists>v meta. batch0 ! 1 = PDict [(py ''id'', PStr (py ''b'')), (py ''vector'', v), (py ''meta'', PDict meta)]
         \<and> dict_get meta (py ''snippet'') = Some (PStr (replicate 200 120 @ py ''...'')))"
proof -
  have run: "ingest stub_env default_config request0 world0 =
      (fst (ingest stub_env default_config request0 world0), snd (ingest stub_env default_config request0 world0))"
    by simp
  have ups: "Index_Upsert 1 batch0 \<in> set (new_calls world0 (snd (ingest stub_env default_config request0 world0)))"
    by (simp add: run0_calls)
  have i: "(1::nat) < length batch0" by (simp add: batch0_def)
  from ingest_snippet [OF run ups i] ups i show ?thesis
    by (auto simp: request0_def)
qed

text \<open>
  C2. An ingest request with no documents is answered with the HTTP error 400, and the
  state is the one before the request: no call was added, so neither the embedding
  provider nor the vector store was called, and the outside state is unchanged.
\<close>

theorem ingest_empty_rejected:
  assumes "documents request = []"
  shows "ingest env cfg request w = (Inl (HTTPException 400 (py ''No documents provided'')), w)
     \<and> new_calls w (snd (ingest env cfg request w)) = []
     \<and> ext (snd (ingest env cfg request w)) = ext w"
  using assms by (simp add: ingest_def new_calls_def)

theorem ingest_empty_rejected_witness:
  "documents \<lparr>documents = []\<rparr> = []
   \<and> fst (ingest stub_env default_config \<lparr>documents = []\<rparr> world0)
       = Inl (HTTPException 400 (py ''No documents provided''))
   \<and> calls (snd (ingest stub_env default_config \<lparr>documents = []\<rparr> world0)) = []
   \<and> ext (snd (ingest stub_env default_config \<lparr>documents = []\<rparr> world0)) = []"
proof -
  have e: "documents \<lparr>documents = []\<rparr> = []" by simp
  from ingest_empty_rejected [OF e, of stub_env default_config world0] e
  show ?thesis by (simp add: world0_def)
qed

text \<open>
  C3. Normalisation yields one clause per item of the filter mapping, in order; the
  \<open>i\<close>-th clause is a dict with the single key of the \<open>i\<close>-th item, mapped to
  \<open>{"$eq": value}\<close>. The filter \<open>{"source": "a.md"}\<close> becomes the single clause
  \<open>[{"source": {"$eq": "a.md"}}]\<close>, and a non-empty filter reaches the search call
  under the argument \<open>filter\<close> in this form.
\<close>

theorem normalize_filter_equality_clauses:
  "length (normalize_filter f) = length f
   \<and> (\<forall>i<length f.
         normalize_filter f ! i = PDict [(fst (f ! i), PDict [(py ''$eq'', snd (f ! i))])])
   \<and> normalize_filter [(py ''source'', PStr (py ''a.md''))]
       = [PDict [(py ''source'', PDict [(py ''$eq'', PStr (py ''a.md''))])]]
   \<and> (f \<noteq> [] \<longrightarrow>
         dict_get (query_kwargs v k (Some f)) (py ''filter'') = Some (PList (normalize_filter f)))"
  by (simp add: normalize_filter_length normalize_filter_nth)
    (simp add: normalize_filter_def query_kwargs_def)

theorem normalize_filter_equality_clauses_witness:
  "length (normalize_filter [(py ''source'', PStr (py ''a.md'')), (py ''year'', PInt 2024)]) = 2
   \<and> normalize_filter [(py ''source'', PStr (py ''a.md'')), (py ''year'', PInt 2024)] ! 1
       = PDict [(py ''year'', PDict [(py ''$eq'', PInt 2024)])]
   \<and> dict_get (query_kwargs [1, 0] 5 (Some [(py ''source'', PStr (py ''a.md''))])) (py ''filter'')
       = Some (PList [PDict [(py ''source'', PDict [(py ''$eq'', PStr (py ''a.md''))])]])"
  using normalize_filter_equality_clauses
      [where f = "[(py ''source'', PStr (py ''a.md'')), (py ''year'', PInt 2024)]"]
    normalize_filter_equality_clauses
      [where f = "[(py ''source'', PStr (py ''a.md''))]" and v = "[1, 0]" and k = 5]
  by simp

text \<open>
  C4. A query body whose \<open>top_k\<close> is below 1 or above 50 is rejected with the state
  unchanged, so before any embedding or vector-store call; a body without \<open>top_k\<close>
  runs the handler with \<open>top_k = 5\<close>, and a value from 1 to 50 runs it with that value.
\<close>

theorem top_k_out_of_range_rejected:
  "(case body_top_k body of
      None \<Rightarrow>
        post_query env cfg body w
          = query env cfg \<lparr>query_text = body_query_text body, top_k = 5,
                           filters = body_filters body\<rparr> w
    | Some k \<Rightarrow>
        if k < 1 \<or> 50 < k
        then post_query env cfg body w = (Inl (RequestValidationError (py ''top_k'')), w)
        else post_query env cfg body w
          = query env cfg \<lparr>query_text = body_query_text body, top_k = k,
                           filters = body_filters body\<rparr> w)"
  by (auto simp: post_query_def validate_QueryRequest_def split: option.splits)

theorem top_k_out_of_range_rejected_witness:
  "post_query stub_env default_config body0 world1 = (Inl (RequestValidationError (py ''top_k'')), world1)
   \<and> post_query stub_env default_config (body0\<lparr>body_top_k := Some 0\<rparr>) world1
       = (Inl (RequestValidationError (py ''top_k'')), world1)
   \<and> post_query stub_env default_config (body0\<lparr>body_top_k := None\<rparr>) world1
       = query stub_env default_config \<lparr>query_text = py ''hello'', top_k = 5, filters = None\<rparr> world1"
  using top_k_out_of_range_rejected [where body = body0 and env = stub_env
      and cfg = default_config and w = world1]
    top_k_out_of_range_rejected [where body = "body0\<lparr>body_top_k := Some 0\<rparr>" and env = stub_env
      and cfg = default_config and w = world1]
    top_k_out_of_range_rejected [where body = "body0\<lparr>body_top_k := None\<rparr>" and env = stub_env
      and cfg = default_config and w = world1]
  by (simp add: body0_def)

text \<open>
  C5. With an embedding provider that returns one vector per text, an ingest that
  succeeds was given a non-empty request and answers \<open>{"status": "ok", "ingested": n}\<close>
  with \<open>n\<close> the number of documents. Its calls are the one batch embedding, the index
  lookup and exactly one upsert, each made in the outside state the call before it
  left; the upsert is the store's own \<open>index.upsert\<close> on the batch, it returned, and the
  outside state after the run is the one it left. The batch has one record per
  document, in the order of the request: the \<open>i\<close>-th has the id of the \<open>i\<close>-th document,
  the \<open>i\<close>-th vector the provider returned, and a metadata dict with the snippet of
  that document.
\<close>

theorem ingest_success:
  assumes contract: "encode_contract env"
    and run: "ingest env cfg request w = (Inr response, w')"
  shows "documents request \<noteq> []
     \<and> response = PDict [(py ''status'', PStr (py ''ok'')),
                          (py ''ingested'', PInt (int (length (documents request))))]
     \<and> (\<exists>m s0 s1 vectors index s2 batch.
           encode_batch env m (map doc_text (documents request)) s0 = (Inr vectors, s1)
         \<and> length vectors = length (documents request)
         \<and> get_index env (get_client cfg) (INDEX_NAME cfg) s1 = (Inr index, s2)
         \<and> index_upsert env index batch s2 = (Inr (), ext w')
         \<and> new_calls w w' = load_calls cfg w @
             [Encode_Batch m (map doc_text (documents request)),
              Get_Index (get_client cfg) (INDEX_NAME cfg),
              Index_Upsert index batch]
         \<and> length batch = length (documents request)
         \<and> (\<forall>i<length (documents request). \<exists>meta.
               batch ! i = PDict [(py ''id'', PStr (doc_id (documents request ! i))),
                                  (py ''vector'', vector_value (vectors ! i)),
                                  (py ''meta'', PDict meta)]
             \<and> dict_get meta (py ''snippet'')
                 = Some (PStr (snippet_of (doc_text (documents request ! i))))))"
proof -
  let ?docs = "documents request"
  from ingest_Inr [OF run] obtain m s0 s1 vectors items index s2 where
    ne: "?docs \<noteq> []" and resp: "response = ingest_response request"
    and enc: "encode_batch env m (map doc_text ?docs) s0 = (Inr vectors, s1)"
    and gi: "get_index env (get_client cfg) (INDEX_NAME cfg) s1 = (Inr index, s2)"
    and iu: "index_upsert env index (map (item_value (heap w')) items) s2 = (Inr (), ext w')"
    and all: "list_all2 (item_for (heap w) (heap w')) items (zip ?docs vectors)"
    and nc: "new_calls w w' = load_calls cfg w @
        [Encode_Batch m (map doc_text ?docs), Get_Index (get_client cfg) (INDEX_NAME cfg),
         Index_Upsert index (map (item_value (heap w')) items)]"
    by blast
  let ?batch = "map (item_value (heap w')) items"
  from contract enc have "length vectors = length (map doc_text ?docs)"
    unfolding encode_contract_def by blast
  then have lv: "length vectors = length ?docs" by simp
  from all have "length items = length (zip ?docs vectors)"
    by (rule list_all2_lengthD)
  with lv have li: "length ?batch = length ?docs" by simp
  have recs: "\<exists>meta. ?batch ! i =
        PDict [(py ''id'', PStr (doc_id (?docs ! i))),
               (py ''vector'', vector_value (vectors ! i)), (py ''meta'', PDict meta)]
      \<and> dict_get meta (py ''snippet'') = Some (PStr (snippet_of (doc_text (?docs ! i))))"
    if "i < length ?docs" for i
  proof -
    from that li have "i < length ?batch" by simp
    from batch_record [OF all this] obtain m' where
      "?batch ! i = PDict [(py ''id'', PStr (doc_id (?docs ! i))),
                     (py ''vector'', vector_value (vectors ! i)),
                     (py ''meta'', PDict (dict_setitem (py ''snippet'')
                                            (PStr (snippet_of (doc_text (?docs ! i)))) m'))]"
      by blast
    moreover have "dict_get (dict_setitem (py ''snippet'')
         (PStr (snippet_of (doc_text (?docs ! i)))) m') (py ''snippet'')
         = Some (PStr (snippet_of (doc_text (?docs ! i))))"
      by (rule dict_get_setitem_same)
    ultimately show ?thesis by blast
  qed
  from enc lv gi iu nc li recs have
    "\<exists>m s0 s1 vectors index s2 batch.
           encode_batch env m (map doc_text ?docs) s0 = (Inr vectors, s1)
         \<and> length vectors = length ?docs
         \<and> get_index env (get_client cfg) (INDEX_NAME cfg) s1 = (Inr index, s2)
         \<and> index_upsert env index batch s2 = (Inr (), ext w')
         \<and> new_calls w w' = load_calls cfg w @
             [Encode_Batch m (map doc_text ?docs),
              Get_Index (get_client cfg) (INDEX_NAME cfg),
              Index_Upsert index batch]
         \<and> length batch = length ?docs
         \<and> (\<forall>i<length ?docs. \<exists>meta.
               batch ! i = PDict [(py ''id'', PStr (doc_id (?docs ! i))),
                                  (py ''vector'', vector_value (vectors ! i)),
                                  (py ''meta'', PDict meta)]
             \<and> dict_get meta (py ''snippet'') = Some (PStr (snippet_of (doc_text (?docs ! i)))))"
    by blast
  with ne resp show ?thesis
    unfolding ingest_response_def by blast
qed

theorem ingest_success_witness:
  "encode_contract stub_env
   \<and> fst (ingest stub_env default_config request0 world0)
       = Inr (PDict [(py ''status'', PStr (py ''ok'')), (py ''ingested'', PInt 2)])
   \<and> ext (snd (ingest stub_env default_config request0 world0)) = batch0
   \<and> (\<exists>m s0 s1 vectors index s2.
         encode_batch stub_env m [py ''hello world'', replicate 201 120] s0 = (Inr vectors, s1)
       \<and> get_index stub_env (get_client default_config) (py ''documents'') s1 = (Inr index, s2)
       \<and> index_upsert stub_env index batch0 s2 = (Inr (), batch0)
       \<and> new_calls world0 (snd (ingest stub_env default_config request0 world0)) =
           [Encode_Batch m [py ''hello world'', replicate 201 120],
            Get_Index (get_client default_config) (py ''documents''),
            Index_Upsert index batch0]
       \<and> length batch0 = 2
       \<and> vector_value (vectors ! 0) = PList [PFloat 1, PFloat 0])"
proof -
  let ?w' = "snd (ingest stub_env default_config request0 world0)"
  have run: "ingest stub_env default_config request0 world0 =
      (Inr (PDict [(py ''status'', PStr (py ''ok'')), (py ''ingested'', PInt 2)]), ?w')"
    using run0_result by (simp add: prod_eq_iff)
  have lc: "load_calls default_config world0 = []"
    by (simp add: load_calls_def world0_def)
  have tx: "map doc_text (documents request0) = [py ''hello world'', replicate 201 120]"
    and ln: "length (documents request0) = 2"
    and d0: "doc_id (documents request0 ! 0) = py ''a''"
    by (simp_all add: request0_def)
  have nm: "INDEX_NAME default_config = py ''documents''"
    by (simp add: default_config_def)
  from ingest_success [OF stub_env_contract run] obtain m s0 s1 vectors index s2 batch where
    enc: "encode_batch stub_env m (map doc_text (documents request0)) s0 = (Inr vectors, s1)"
    and gi: "get_index stub_env (get_client default_config) (INDEX_NAME default_config) s1
              = (Inr index, s2)"
    and iu: "index_upsert stub_env index batch s2 = (Inr (), ext ?w')"
    and nc: "new_calls world0 ?w' = load_calls default_config world0 @
           [Encode_Batch m (map doc_text (documents request0)),
            Get_Index (get_client default_config) (INDEX_NAME default_config),
            Index_Upsert index batch]"
    and len: "length batch = length (documents request0)"
    and recs: "\<forall>i<length (documents request0). \<exists>meta.
               batch ! i = PDict [(py ''id'', PStr (doc_id (documents request0 ! i))),
                                  (py ''vector'', vector_value (vectors ! i)),
                                  (py ''meta'', PDict meta)]
             \<and> dict_get meta (py ''snippet'')
                 = Some (PStr (snippet_of (doc_text (documents request0 ! i))))"
    by blast
  from nc have b: "batch = batch0"
    by (simp add: run0_calls lc)
  from recs ln obtain meta where
    "batch ! 0 = PDict [(py ''id'', PStr (doc_id (documents request0 ! 0))),
                        (py ''vector'', vector_value (vectors ! 0)), (py ''meta'', PDict meta)]"
    by force
  with b have v0: "vector_value (vectors ! 0) = PList [PFloat 1, PFloat 0]"
    by (simp add: batch0_def)
  from enc gi iu nc len v0 have
    "\<exists>m s0 s1 vectors index s2.
         encode_batch stub_env m [py ''hello world'', replicate 201 120] s0 = (Inr vectors, s1)
       \<and> get_index stub_env (get_client default_config) (py ''documents'') s1 = (Inr index, s2)
       \<and> index_upsert stub_env index batch0 s2 = (Inr (), batch0)
       \<and> new_calls world0 ?w' =
           [Encode_Batch m [py ''hello world'', replicate 201 120],
            Get_Index (get_client default_config) (py ''documents''),
            Index_Upsert index batch0]
       \<and> length batch0 = 2
       \<and> vector_value (vectors ! 0) = PList [PFloat 1, PFloat 0]"
    unfolding b lc tx ln nm run0_ext append_Nil by blast
  then show ?thesis using stub_env_contract run0_result run0_ext by blast
qed

text \<open>
  C6. A query embeds at most once, whatever its outcome. When it returns a response, it
  made exactly one embedding call, on the query text, then the index lookup and one
  search call with the embedded vector, and the response is \<open>{"results": results}\<close>
  with \<open>results\<close> the very value the search call returned.
\<close>

theorem query_returns_store_results:
  assumes run: "query env cfg request w = (r, w')"
  shows "length (filter is_encode (new_calls w w')) \<le> 1
     \<and> (case r of
           Inl e \<Rightarrow> True
         | Inr response \<Rightarrow>
             (\<exists>m v s s1 index s2 results.
                new_calls w w' = load_calls cfg w @
                  [Encode_One m (query_text request),
                   Get_Index (get_client cfg) (INDEX_NAME cfg),
                   Index_Query index (query_kwargs v (top_k request) (filters request))]
              \<and> encode_one env m (query_text request) s = (Inr v, s1)
              \<and> index_query env index (query_kwargs v (top_k request) (filters request)) s2
                  = (Inr results, ext w')
              \<and> response = PDict [(py ''results'', results)]))"
proof -
  have le: "filter is_encode (load_calls cfg w) = []"
    by (simp add: load_calls_def split: option.splits)
  from query_cases [OF run] consider
    (failed) e cs where "r = Inl e" "new_calls w w' = load_calls cfg w @ cs"
      "cs = [] \<or> (\<exists>m. cs = [Encode_One m (query_text request)])"
  | (store) m v s s1 us where
      "encode_one env m (query_text request) s = (Inr v, s1)"
      "new_calls w w' = load_calls cfg w @
         [Encode_One m (query_text request), Get_Index (get_client cfg) (INDEX_NAME cfg)] @ us"
      "(\<exists>e. r = Inl e \<and> us = [])
       \<or> (\<exists>index s2 res.
              us = [Index_Query index (query_kwargs v (top_k request) (filters request))]
            \<and> index_query env index (query_kwargs v (top_k request) (filters request)) s2
                = (res, ext w')
            \<and> r = (case res of Inl e \<Rightarrow> Inl e
                    | Inr results \<Rightarrow> Inr (PDict [(py ''results'', results)])))"
    by blast
  then show ?thesis
  proof cases
    case failed
    then show ?thesis using le by auto
  next
    case store
    from store(3) show ?thesis
    proof
      assume "\<exists>e. r = Inl e \<and> us = []"
      with store(2) le show ?thesis by auto
    next
      assume "\<exists>index s2 res.
              us = [Index_Query index (query_kwargs v (top_k request) (filters request))]
            \<and> index_query env index (query_kwargs v (top_k request) (filters request)) s2
                = (res, ext w')
            \<and> r = (case res of Inl e \<Rightarrow> Inl e
                    | Inr results \<Rightarrow> Inr (PDict [(py ''results'', results)]))"
      then obtain index s2 res where
        us: "us = [Index_Query index (query_kwargs v (top_k request) (filters request))]"
        and iq: "index_query env index (query_kwargs v (top_k request) (filters request)) s2
                = (res, ext w')"
        and r: "r = (case res of Inl e \<Rightarrow> Inl e
                    | Inr results \<Rightarrow> Inr (PDict [(py ''results'', results)]))"
        by blast
      have one: "length (filter is_encode (new_calls w w')) \<le> 1"
        using store(2) us le by simp
      show ?thesis
      proof (cases res)
        case (Inl e)
        with r one show ?thesis by simp
      next
        case (Inr results)
        with r have rr: "r = Inr (PDict [(py ''results'', results)])" by simp
        have "\<exists>m v s s1 index s2 results'.
                new_calls w w' = load_calls cfg w @
                  [Encode_One m (query_text request),
                   Get_Index (get_client cfg) (INDEX_NAME cfg),
                   Index_Query index (query_kwargs v (top_k request) (filters request))]
              \<and> encode_one env m (query_text request) s = (Inr v, s1)
              \<and> index_query env index (query_kwargs v (top_k request) (filters request)) s2
                  = (Inr results', ext w')
              \<and> PDict [(py ''results'', results)] = PDict [(py ''results'', results')]"
          using store(1,2) us iq Inr by (simp only: append_Cons append_Nil) blast
        with one rr show ?thesis by simp
      qed
    qed
  qed
qed


theorem query_returns_store_results_witness:
  "fst (query stub_env default_config query0 world1) = Inr (PDict [(py ''results'', PList batch0)])
   \<and> length (filter is_encode (new_calls world1 (snd (query stub_env default_config query0 world1)))) \<le> 1
   \<and> (\<exists>m v s s1 index s2.
         new_calls world1 (snd (query stub_env default_config query0 world1)) =
           load_calls default_config world1 @
             [Encode_One m (query_text query0),
              Get_Index (get_client default_config) (INDEX_NAME default_config),
              Index_Query index (query_kwargs v (top_k query0) (filters query0))]
       \<and> encode_one stub_env m (query_text query0) s = (Inr v, s1)
       \<and> index_query stub_env index (query_kwargs v (top_k query0) (filters query0)) s2
           = (Inr (PList batch0), ext (snd (query stub_env default_config query0 world1))))"
proof -
  let ?w' = "snd (query stub_env default_config query0 world1)"
  have run: "query stub_env default_config query0 world1 =
      (Inr (PDict [(py ''results'', PList batch0)]), ?w')"
    by (simp add: query0_run)
  have res: "fst (query stub_env default_config query0 world1)
      = Inr (PDict [(py ''results'', PList batch0)])"
    by (simp add: query0_run)
  from query_returns_store_results [OF run] res show ?thesis
    by simp
qed



text \<open>
  C8. The exit status of the bulk loader. With no document loaded it is 1 and nothing
  is posted. With documents, there is one post: when it raises, the status is 1, and a
  connection error prints the fixed connection message while another request exception
  prints \<open>Error: \<close> followed by the exception's own text (and the response text, if
  any); when the response has a status from 400 to 599, the status is 1 and the error
  and the response text are printed; otherwise the status is 0 when the body decodes to
  a JSON object, as the ingest endpoint's response does, and 1 when it does not. No run
  posts more than once, and the two messages differ unless the exception's text is
  the connection message's own.
\<close>

theorem loader_exit_status:
  "(fst (load_documents env) = [] \<longrightarrow> exit_status env = 1 \<and> posts (snd (main env)) = [])
   \<and> (fst (load_documents env) \<noteq> [] \<longrightarrow>
        (case requests_post env ingest_url (payload_of (fst (load_documents env))) 60 of
           Inl e \<Rightarrow>
             exit_status env = 1
             \<and> stdout (snd (main env)) = snd (load_documents env) @
                 (case exc_class e of
                    ConnectionError \<Rightarrow> [connection_message]
                  | RequestException \<Rightarrow>
                      [py ''Error: '' @ exc_str e]
                      @ (case exc_response_text e of None \<Rightarrow> [] | Some t \<Rightarrow> [t])
                  | OtherException \<Rightarrow> [])
         | Inr resp \<Rightarrow>
             if 400 \<le> status_code resp \<and> status_code resp < 600
             then exit_status env = 1
               \<and> stdout (snd (main env)) = snd (load_documents env) @
                    [py ''Error: '' @ http_error_str resp, resp_text resp]
             else (case resp_json resp of
                     Inr (PDict d) \<Rightarrow> exit_status env = 0
                   | _ \<Rightarrow> exit_status env = 1)))
   \<and> length (posts (snd (main env))) \<le> 1
   \<and> (exc_str e \<noteq> py ''Could not connect to the API. Is the backend running on port 8000?''
        \<longrightarrow> py ''Error: '' @ exc_str e \<noteq> connection_message)"
proof -
  have a: "fst (load_documents env) = [] \<longrightarrow> exit_status env = 1 \<and> posts (snd (main env)) = []"
    by (simp add: exit_status_def main_def split: prod.splits)
  have b: "fst (load_documents env) \<noteq> [] \<longrightarrow>
        (case requests_post env ingest_url (payload_of (fst (load_documents env))) 60 of
           Inl e \<Rightarrow>
             exit_status env = 1
             \<and> stdout (snd (main env)) = snd (load_documents env) @
                 (case exc_class e of
                    ConnectionError \<Rightarrow> [connection_message]
                  | RequestException \<Rightarrow>
                      [py ''Error: '' @ exc_str e]
                      @ (case exc_response_text e of None \<Rightarrow> [] | Some t \<Rightarrow> [t])
                  | OtherException \<Rightarrow> [])
         | Inr resp \<Rightarrow>
             if 400 \<le> status_code resp \<and> status_code resp < 600
             then exit_status env = 1
               \<and> stdout (snd (main env)) = snd (load_documents env) @
                    [py ''Error: '' @ http_error_str resp, resp_text resp]
             else (case resp_json resp of
                     Inr (PDict d) \<Rightarrow> exit_status env = 0
                   | _ \<Rightarrow> exit_status env = 1))"
  proof
    assume ne: "fst (load_documents env) \<noteq> []"
    obtain docs out where ld: "load_documents env = (docs, out)"
      by (cases "load_documents env")
    with ne have ne': "docs \<noteq> []" by simp
    show "case requests_post env ingest_url (payload_of (fst (load_documents env))) 60 of
           Inl e \<Rightarrow>
             exit_status env = 1
             \<and> stdout (snd (main env)) = snd (load_documents env) @
                 (case exc_class e of
                    ConnectionError \<Rightarrow> [connection_message]
                  | RequestException \<Rightarrow>
                      [py ''Error: '' @ exc_str e]
                      @ (case exc_response_text e of None \<Rightarrow> [] | Some t \<Rightarrow> [t])
                  | OtherException \<Rightarrow> [])
         | Inr resp \<Rightarrow>
             if 400 \<le> status_code resp \<and> status_code resp < 600
             then exit_status env = 1
               \<and> stdout (snd (main env)) = snd (load_documents env) @
                    [py ''Error: '' @ http_error_str resp, resp_text resp]
             else (case resp_json resp of
                     Inr (PDict d) \<Rightarrow> exit_status env = 0
                   | _ \<Rightarrow> exit_status env = 1)"
    proof (cases "requests_post env ingest_url (payload_of docs) 60")
      case (Inl e)
      then show ?thesis
        using ld ne'
        by (simp add: exit_status_def main_def Let_def handle_exception_status
            handle_exception_stdout)
    next
      case (Inr resp)
      show ?thesis
      proof (cases "400 \<le> status_code resp \<and> status_code resp < 600")
        case True
        then show ?thesis
          using ld ne' Inr
          by (simp add: exit_status_def main_def Let_def raise_for_status_def
              handle_exception_status handle_exception_stdout)
      next
        case False
        then have rfs: "raise_for_status resp = None"
          by (simp add: raise_for_status_def)
        show ?thesis
        proof (cases "resp_json resp")
          case (Inl e)
          then show ?thesis
            using ld ne' Inr False rfs
            by (auto simp: exit_status_def main_def Let_def handle_exception_status)
        next
          case (Inr data)
          then show ?thesis
            using ld ne' \<open>requests_post env ingest_url (payload_of docs) 60 = Inr resp\<close> False rfs
            by (cases data)
              (auto simp: exit_status_def main_def Let_def data_get_ingested_def
                handle_exception_def)
        qed
      qed
    qed
  qed
  have c: "length (posts (snd (main env))) \<le> 1"
    by (simp add: main_posts)
  have d: "exc_str e \<noteq> py ''Could not connect to the API. Is the backend running on port 8000?''
        \<longrightarrow> py ''Error: '' @ exc_str e \<noteq> connection_message"
    by (simp add: connection_message_def)
  from a b c d show ?thesis by blast
qed


theorem loader_exit_status_witness:
  "fst (load_documents script_env0) \<noteq> []
   \<and> exit_status script_env0 = 0
   \<and> exit_status script_env_down = 1
   \<and> stdout (snd (main script_env_down)) = [connection_message]
   \<and> exit_status script_env_500 = 1
   \<and> stdout (snd (main script_env_500))
       = [py ''Error: 500 Server Error'', py ''Internal Server Error'']
   \<and> fst (load_documents script_env_empty) = []
   \<and> exit_status script_env_empty = 1
   \<and> posts (snd (main script_env_empty)) = []"
proof -
  define e0 where "e0 = \<lparr>exc_class = ConnectionError, exc_str = py ''Connection refused'',
           exc_response_text = None\<rparr>"
  have ne: "fst (load_documents script_env0) \<noteq> []"
    by (simp add: load_documents_env0)
  have p0: "requests_post script_env0 url payload t =
      Inr \<lparr>status_code = 200, resp_text = py ''ok'', http_error_str = [],
           resp_json = Inr (PDict [(py ''status'', PStr (py ''ok'')), (py ''ingested'', PInt 1)])\<rparr>"
    for url payload t
    by (simp add: script_env0_def)
  have p1: "requests_post script_env_down url payload t =
      Inl \<lparr>exc_class = ConnectionError, exc_str = py ''Connection refused'',
           exc_response_text = None\<rparr>"
    for url payload t
    by (simp add: script_env_down_def)
  have p2: "requests_post script_env_500 url payload t =
      Inr \<lparr>status_code = 500, resp_text = py ''Internal Server Error'',
           http_error_str = py ''500 Server Error'', resp_json = Inr PNone\<rparr>"
    for url payload t
    by (simp add: script_env_500_def)
  from loader_exit_status [where env = script_env0 and e = e0]
    loader_exit_status [where env = script_env_down and e = e0]
    loader_exit_status [where env = script_env_500 and e = e0]
    loader_exit_status [where env = script_env_empty and e = e0]
    ne
  show ?thesis
    by (simp add: load_documents_variants p0 p1 p2 load_documents_env0)
qed

text \<open>
  C9. A query whose \<open>filters\<close> is the empty mapping runs exactly as the query without
  \<open>filters\<close>: the arguments of the search call are the vector and \<open>top_k\<close> only, and
  no search call of the run has a \<open>filter\<close> argument.
\<close>

theorem empty_filters_omitted:
  assumes "filters request = Some []"
  shows "query env cfg request w = query env cfg (request\<lparr>filters := None\<rparr>) w
     \<and> query_kwargs v (top_k request) (filters request)
         = [(py ''vector'', vector_value v), (py ''top_k'', PInt (top_k request))]
     \<and> (\<forall>index kwargs.
           Index_Query index kwargs \<in> set (new_calls w (snd (query env cfg request w)))
           \<longrightarrow> dict_get kwargs (py ''filter'') = None)"
proof -
  have kw: "query_kwargs v' (top_k request) (filters request)
         = [(py ''vector'', vector_value v'), (py ''top_k'', PInt (top_k request))]" for v'
    using assms by (simp add: query_kwargs_def)
  have kweq: "query_kwargs v' k (Some []) = query_kwargs v' k None" for v' k
    by (simp add: query_kwargs_def)
  have "query_similar env cfg v' k (Some []) = query_similar env cfg v' k None" for v' k
    unfolding query_similar_def kweq ..
  then have same: "query env cfg request w = query env cfg (request\<lparr>filters := None\<rparr>) w"
    using assms by (simp add: query_def split: prod.splits sum.splits)
  have "dict_get kwargs (py ''filter'') = None"
    if "Index_Query index kwargs \<in> set (new_calls w (snd (query env cfg request w)))"
    for index kwargs
  proof -
    have "query env cfg request w = (fst (query env cfg request w), snd (query env cfg request w))"
      by simp
    from query_index_query_kwargs [OF this that] obtain v' where
      "kwargs = query_kwargs v' (top_k request) (filters request)" by blast
    with kw show ?thesis by simp
  qed
  with kw same show ?thesis by blast
qed


theorem empty_filters_omitted_witness:
  "filters (query0\<lparr>filters := Some []\<rparr>) = Some []
   \<and> query stub_env default_config (query0\<lparr>filters := Some []\<rparr>) world1
       = query stub_env default_config (query0\<lparr>filters := None\<rparr>) world1
   \<and> Index_Query 1 [(py ''vector'', PList [PFloat 1, PFloat 0]), (py ''top_k'', PInt 5)]
       \<in> set (new_calls world1 (snd (query stub_env default_config (query0\<lparr>filters := Some []\<rparr>) world1)))
   \<and> dict_get [(py ''vector'', PList [PFloat 1, PFloat 0]), (py ''top_k'', PInt 5)] (py ''filter'') = None"
proof -
  have f: "filters (query0\<lparr>filters := Some []\<rparr>) = Some []" by simp
  have q: "Index_Query 1 [(py ''vector'', PList [PFloat 1, PFloat 0]), (py ''top_k'', PInt 5)]
       \<in> set (new_calls world1 (snd (query stub_env default_config (query0\<lparr>filters := Some []\<rparr>) world1)))"
    by (simp add: query1_calls)
  from empty_filters_omitted [OF f, of stub_env default_config world1] q f show ?thesis
    by auto
qed

text \<open>
  C10. For a record of an upsert batch whose document's \<open>meta\<close> is \<open>None\<close> or an
  allocated dict object: the record's metadata holds the derived snippet under the key
  \<open>snippet\<close>, whatever the caller had stored under that key; every other item of the
  caller's dict is in it, unchanged and in the same order; and the caller's dict object
  has after the run the content it had before.
\<close>

theorem ingest_meta_frame:
  assumes run: "ingest env cfg request w = (r, w')"
    and ups: "Index_Upsert index batch \<in> set (new_calls w w')"
    and i: "i < length batch"
    and alloc: "meta_allocated (heap w) (documents request ! i)"
  shows "\<exists>v meta.
           batch ! i = PDict [(py ''id'', PStr (doc_id (documents request ! i))),
                              (py ''vector'', v), (py ''meta'', PDict meta)]
         \<and> dict_get meta (py ''snippet'') = Some (PStr (snippet_of (doc_text (documents request ! i))))
         \<and> (case doc_meta (documents request ! i) of
               None \<Rightarrow> meta = [(py ''snippet'', PStr (snippet_of (doc_text (documents request ! i))))]
             | Some a \<Rightarrow>
                 (\<forall>k. k \<noteq> py ''snippet'' \<longrightarrow> dict_get meta k = dict_get (cells (heap w) a) k)
               \<and> filter (\<lambda>kv. fst kv \<noteq> py ''snippet'') meta
                   = filter (\<lambda>kv. fst kv \<noteq> py ''snippet'') (cells (heap w) a)
               \<and> cells (heap w') a = cells (heap w) a)"
proof -
  let ?d = "documents request ! i"
  let ?s = "PStr (snippet_of (doc_text ?d))"
  from ingest_upsert_batch [OF run ups] obtain vectors items where
    all: "list_all2 (item_for (heap w) (heap w')) items (zip (documents request) vectors)"
    and batch: "batch = map (item_value (heap w')) items"
    and frame: "\<forall>a<next_free (heap w). cells (heap w') a = cells (heap w) a"
    by blast
  from batch_record [OF all] i batch alloc have
    rec: "batch ! i = PDict [(py ''id'', PStr (doc_id ?d)),
                     (py ''vector'', vector_value (vectors ! i)),
                     (py ''meta'', PDict (dict_setitem (py ''snippet'') ?s (meta_or_empty ?d (heap w))))]"
    by auto
  let ?meta = "dict_setitem (py ''snippet'') ?s (meta_or_empty ?d (heap w))"
  have snip: "dict_get ?meta (py ''snippet'') = Some ?s"
    by (rule dict_get_setitem_same)
  have rest: "case doc_meta ?d of
               None \<Rightarrow> ?meta = [(py ''snippet'', ?s)]
             | Some a \<Rightarrow>
                 (\<forall>k. k \<noteq> py ''snippet'' \<longrightarrow> dict_get ?meta k = dict_get (cells (heap w) a) k)
               \<and> filter (\<lambda>kv. fst kv \<noteq> py ''snippet'') ?meta
                   = filter (\<lambda>kv. fst kv \<noteq> py ''snippet'') (cells (heap w) a)
               \<and> cells (heap w') a = cells (heap w) a"
  proof (cases "doc_meta ?d")
    case None
    then show ?thesis by (simp add: meta_or_empty_def)
  next
    case (Some a)
    then have m: "meta_or_empty ?d (heap w) = cells (heap w) a"
      by (simp add: meta_or_empty_def)
    from Some alloc have "a < next_free (heap w)"
      by (simp add: meta_allocated_def)
    with frame have "cells (heap w') a = cells (heap w) a" by simp
    with Some m show ?thesis
      by (simp add: dict_get_setitem_other filter_setitem_other)
  qed
  from rec snip rest show ?thesis by blast
qed

theorem ingest_meta_frame_witness:
  "Index_Upsert 1 batch0 \<in> set (new_calls world0 (snd (ingest stub_env default_config request0 world0)))
   \<and> (0::nat) < length batch0
   \<and> meta_allocated (heap world0) (documents request0 ! 0)
   \<and> (\<exists>v meta. batch0 ! 0 = PDict [(py ''id'', PStr (py ''a'')), (py ''vector'', v), (py ''meta'', PDict meta)]
        \<and> dict_get meta (py ''snippet'') = Some (PStr (py ''hello world''))
        \<and> dict_get meta (py ''source'') = Some (PStr (py ''a.md'')))
   \<and> cells (heap (snd (ingest stub_env default_config request0 world0))) 0
       = [(py ''source'', PStr (py ''a.md'')), (py ''snippet'', PStr (py ''old''))]"
proof -
  let ?w' = "snd (ingest stub_env default_config request0 world0)"
  have run: "ingest stub_env default_config request0 world0 =
      (fst (ingest stub_env default_config request0 world0), ?w')"
    by simp
  have ups: "Index_Upsert 1 batch0 \<in> set (new_calls world0 ?w')"
    by (simp add: run0_calls)
  have i: "(0::nat) < length batch0" by (simp add: batch0_def)
  have al: "meta_allocated (heap world0) (documents request0 ! 0)"
    by (simp add: meta_allocated_def world0_def request0_def)
  have d: "doc_meta (documents request0 ! 0) = Some 0"
    "doc_text (documents request0 ! 0) = py ''hello world''"
    "doc_id (documents request0 ! 0) = py ''a''"
    by (simp_all add: request0_def)
  have c: "cells (heap world0) 0 = [(py ''source'', PStr (py ''a.md'')), (py ''snippet'', PStr (py ''old''))]"
    by (simp add: world0_def)
  from ingest_meta_frame [OF run ups i al] obtain v meta where
    "batch0 ! 0 = PDict [(py ''id'', PStr (py ''a'')), (py ''vector'', v), (py ''meta'', PDict meta)]"
    "dict_get meta (py ''snippet'') = Some (PStr (py ''hello world''))"
    "\<forall>k. k \<noteq> py ''snippet'' \<longrightarrow> dict_get meta k = dict_get (cells (heap world0) 0) k"
    "cells (heap ?w') 0 = cells (heap world0) 0"
    unfolding d option.case by (auto simp: snippet_of_def)
  moreover from this(3) have "dict_get meta (py ''source'') = dict_get (cells (heap world0) 0) (py ''source'')"
    by simp
  ultimately show ?thesis using ups i al c by auto
qed

end
